theory Spec2Isabelle
  imports Main "HOL-Library.Char_ord" "HOL-Library.Sublist" "HOL-Library.AList"
    "HOL-Library.Word"
begin

section \<open>gomomo: a client library for the MTN Mobile Money API\<close>

text \<open>
  A shallow embedding of the Go package \<^verbatim>\<open>gomomo\<close>: phone-number normalisation
  (\<^verbatim>\<open>formatPhoneNumber\<close>), configuration (\<^verbatim>\<open>NewConfig\<close>, \<^verbatim>\<open>Config.Validate\<close>), the HTTP
  dispatcher (\<^verbatim>\<open>Client.DoRequest\<close>), the authenticator (\<^verbatim>\<open>AuthService\<close>) and the operations
  of the two product services that take a phone number. The first part holds the
  definitions, translated from the source; the second part the properties proved of them.
  A Go \<^verbatim>\<open>string\<close> is a sequence of bytes and is modelled as \<^typ>\<open>string\<close>, a list of
  8-bit characters; the empty Go string \<^verbatim>\<open>""\<close> is \<^term>\<open>[] :: string\<close>.
\<close>

subsection \<open>Phone-number normalisation\<close>

text \<open>
  \<^verbatim>\<open>strings.Map(mapping, s)\<close> applies \<^verbatim>\<open>mapping\<close> to every character and drops those
  mapped to a negative value (here \<^const>\<open>None\<close>). Go iterates over UTF-8 runes; the
  embedding iterates over bytes. For the mapping of \<^verbatim>\<open>formatPhoneNumber\<close> the two agree:
  it keeps exactly the runes \<^verbatim>\<open>'0'..'9'\<close>, each a single byte below 0x80, and every
  byte of a multi-byte or invalid sequence is 0x80 or above and is dropped either way.
\<close>

fun strings_Map :: "(char \<Rightarrow> char option) \<Rightarrow> string \<Rightarrow> string" where
  "strings_Map mapping [] = []"
| "strings_Map mapping (r # s) =
     (case mapping r of
        None \<Rightarrow> strings_Map mapping s
      | Some r' \<Rightarrow> r' # strings_Map mapping s)"

text \<open>\<^verbatim>\<open>strings.HasPrefix(s, prefix)\<close> is
  \<^verbatim>\<open>len(s) >= len(prefix) && s[:len(prefix)] == prefix\<close>.\<close>

definition strings_HasPrefix :: "string \<Rightarrow> string \<Rightarrow> bool" where
  "strings_HasPrefix s pre = (length s \<ge> length pre \<and> take (length pre) s = pre)"

definition formatPhoneNumber :: "string \<Rightarrow> string" where
  "formatPhoneNumber phone =
     (let digitsOnly = strings_Map
            (\<lambda>r. if r \<ge> CHR ''0'' \<and> r \<le> CHR ''9'' then Some r else None) phone
      in if length digitsOnly > 0 \<and> digitsOnly ! 0 = CHR ''0''
         then ''231'' @ drop 1 digitsOnly
         else if \<not> strings_HasPrefix digitsOnly ''231''
         then ''231'' @ digitsOnly
         else digitsOnly)"

text \<open>
  The normalisation as the specification words it, for comparison with the code:
  strip all non-digit characters; if the result starts with \<^verbatim>\<open>"0"\<close>, replace that
  leading zero with the country code \<^verbatim>\<open>"231"\<close>; otherwise prepend \<^verbatim>\<open>"231"\<close> unless
  the result already starts with \<^verbatim>\<open>"231"\<close>.
\<close>

definition is_digit :: "char \<Rightarrow> bool" where
  "is_digit c = (c \<in> set ''0123456789'')"

definition phone_normalization_spec :: "string \<Rightarrow> string" where
  "phone_normalization_spec phone =
     (let stripped = filter is_digit phone
      in if prefix ''0'' stripped then ''231'' @ tl stripped
         else if prefix ''231'' stripped then stripped
         else ''231'' @ stripped)"

subsection \<open>Errors\<close>

text \<open>
  A Go \<^verbatim>\<open>error\<close> value. \<^verbatim>\<open>fmt.Errorf(msg)\<close> and \<^verbatim>\<open>errors.New(msg)\<close> give an error
  with that message; \<^verbatim>\<open>fmt.Errorf("prefix: %w", err)\<close> gives an error whose message is
  the prefix followed by the message of \<^verbatim>\<open>err\<close> and which wraps \<^verbatim>\<open>err\<close> as its cause.
\<close>

datatype error = New string | Wrapped string error

fun Error :: "error \<Rightarrow> string" where
  "Error (New msg) = msg"
| "Error (Wrapped msg cause) = msg"

definition Errorf_w :: "string \<Rightarrow> error \<Rightarrow> error" where
  "Errorf_w pre err = Wrapped (pre @ '': '' @ Error err) err"

text \<open>The decimal rendering of an integer, as the verb \<^verbatim>\<open>%d\<close> prints it.\<close>

fun natToDec :: "nat \<Rightarrow> string" where
  "natToDec n =
     (if n < 10 then [''0123456789'' ! n]
      else natToDec (n div 10) @ [''0123456789'' ! (n mod 10)])"

definition Itoa :: "int \<Rightarrow> string" where
  "Itoa i = (if i < 0 then ''-'' @ natToDec (nat (- i)) else natToDec (nat i))"

subsection \<open>Configuration\<close>

type_synonym EnvironmentType = string

definition Sandbox :: EnvironmentType where
  "Sandbox = ''sandbox''"

definition Production :: EnvironmentType where
  "Production = ''production''"

record Config =
  SubscriptionKey :: string
  DisbursementKey :: string
  TargetEnvironment :: string
  CallbackHost :: string
  APIUser :: string
  APIKey :: string
  Environment :: EnvironmentType
  Currency :: string
  Host :: string

text \<open>
  \<^verbatim>\<open>Validate\<close> has a pointer receiver: it may write the disbursement key before it
  returns. The embedding returns the error (\<^const>\<open>None\<close> for \<^verbatim>\<open>nil\<close>) together with the
  configuration as the call leaves it.
\<close>

definition Validate :: "Config \<Rightarrow> error option \<times> Config" where
  "Validate c =
     (if SubscriptionKey c = [] then (Some (New ''subscription key is required''), c)
      else if TargetEnvironment c = [] then (Some (New ''target environment is required''), c)
      else if Host c = [] then (Some (New ''host is required''), c)
      else if Environment c = Production \<and> APIUser c = [] \<and> APIKey c = []
        then (Some (New ''API user and key are required for production''), c)
      else
        let c = (if DisbursementKey c = []
                 then c\<lparr>DisbursementKey := SubscriptionKey c\<rparr> else c)
        in if Currency c = [] then (Some (New ''currency is required''), c)
           else (None, c))"

type_synonym ConfigOption = "Config \<Rightarrow> Config"

definition WithSubscriptionKey :: "string \<Rightarrow> ConfigOption" where
  "WithSubscriptionKey key = (\<lambda>c. c\<lparr>SubscriptionKey := key\<rparr>)"

definition WithDisbursementKey :: "string \<Rightarrow> ConfigOption" where
  "WithDisbursementKey key = (\<lambda>c. c\<lparr>DisbursementKey := key\<rparr>)"

definition WithTargetEnvironment :: "string \<Rightarrow> ConfigOption" where
  "WithTargetEnvironment env = (\<lambda>c. c\<lparr>TargetEnvironment := env\<rparr>)"

definition WithCallbackHost :: "string \<Rightarrow> ConfigOption" where
  "WithCallbackHost host = (\<lambda>c. c\<lparr>CallbackHost := host\<rparr>)"

definition WithAPIUser :: "string \<Rightarrow> ConfigOption" where
  "WithAPIUser user = (\<lambda>c. c\<lparr>APIUser := user\<rparr>)"

definition WithAPIKey :: "string \<Rightarrow> ConfigOption" where
  "WithAPIKey key = (\<lambda>c. c\<lparr>APIKey := key\<rparr>)"

definition WithHost :: "string \<Rightarrow> ConfigOption" where
  "WithHost host = (\<lambda>c. c\<lparr>Host := host\<rparr>)"

definition WithCurrency :: "string \<Rightarrow> ConfigOption" where
  "WithCurrency currency = (\<lambda>c. c\<lparr>Currency := currency\<rparr>)"

text \<open>
  \<^verbatim>\<open>FromEnv\<close> reads the process environment; \<open>getenv\<close> stands for \<^verbatim>\<open>os.Getenv\<close>, which
  returns the empty string for a variable that is not set.
\<close>

definition FromEnv :: "(string \<Rightarrow> string) \<Rightarrow> ConfigOption" where
  "FromEnv getenv = (\<lambda>c.
     let c = (if getenv ''MOMO_SUBSCRIPTION_KEY'' \<noteq> []
              then c\<lparr>SubscriptionKey := getenv ''MOMO_SUBSCRIPTION_KEY''\<rparr> else c);
         c = (if getenv ''MOMO_DISBURSEMENT_KEY'' \<noteq> []
              then c\<lparr>DisbursementKey := getenv ''MOMO_DISBURSEMENT_KEY''\<rparr> else c);
         c = (if getenv ''MOMO_TARGET_ENVIRONMENT'' \<noteq> []
              then c\<lparr>TargetEnvironment := getenv ''MOMO_TARGET_ENVIRONMENT''\<rparr> else c);
         c = (if getenv ''MOMO_CALLBACK_HOST'' \<noteq> []
              then c\<lparr>CallbackHost := getenv ''MOMO_CALLBACK_HOST''\<rparr> else c);
         c = (if getenv ''MOMO_HOST'' \<noteq> []
              then c\<lparr>Host := getenv ''MOMO_HOST''\<rparr> else c);
         c = (if getenv ''MOMO_API_USER'' \<noteq> []
              then c\<lparr>APIUser := getenv ''MOMO_API_USER''\<rparr> else c);
         c = (if getenv ''MOMO_API_KEY'' \<noteq> []
              then c\<lparr>APIKey := getenv ''MOMO_API_KEY''\<rparr> else c);
         c = (if getenv ''MOMO_CURRENCY'' \<noteq> []
              then c\<lparr>Currency := getenv ''MOMO_CURRENCY''\<rparr> else c)
     in c)"

text \<open>
  \<^verbatim>\<open>NewConfig\<close> returns \<^verbatim>\<open>(*Config, error)\<close>: \<^verbatim>\<open>(nil, err)\<close> when validation fails and
  \<^verbatim>\<open>(config, nil)\<close> otherwise. The pair of options is that pair.
\<close>

definition NewConfig :: "EnvironmentType \<Rightarrow> ConfigOption list \<Rightarrow> Config option \<times> error option" where
  "NewConfig environment opts =
     (let config = \<lparr>SubscriptionKey = [], DisbursementKey = [], TargetEnvironment = [],
                     CallbackHost = [], APIUser = [], APIKey = [],
                     Environment = environment, Currency = ''EUR'', Host = []\<rparr>;
          config = (if environment = Sandbox
                    then config\<lparr>Host := ''sandbox.momodeveloper.mtn.com'',
                                 TargetEnvironment := ''sandbox''\<rparr>
                    else if environment = Production
                    then config\<lparr>Currency := []\<rparr>
                    else config);
          config = foldl (\<lambda>c opt. opt c) config opts
      in case Validate config of
           (Some err, _) \<Rightarrow> (None, Some err)
         | (None, config) \<Rightarrow> (Some config, None))"

subsection \<open>The world outside the library\<close>

text \<open>
  The library calls the Go standard library, the network, the clock and a random
  source. None of them is code of this repository, so they are parameters of the
  embedding, collected in one record together with the effects the library has on them.
  \<^item> A request body (\<^verbatim>\<open>interface{}\<close>) is a JSON value; \<open>json_Marshal\<close> is its
    serialisation \<^verbatim>\<open>json.Marshal\<close>, which may fail.
  \<^item> \<open>http_NewRequest\<close> is the check \<^verbatim>\<open>http.NewRequestWithContext\<close> makes of the method
    and the URL: \<^const>\<open>None\<close> when the request is created.
  \<^item> \<open>httpClient_Do\<close> is the transport \<^verbatim>\<open>c.httpClient.Do\<close>: given the requests sent
    before and the request, a transport error (also a timeout or a cancelled context)
    or the response.
  \<^item> \<open>unmarshal_TokenResponse\<close>, \<open>unmarshal_APIKey\<close> and \<open>unmarshal_AccountHolderInfo\<close> read
    a non-empty JSON text into a value of the slot's type, starting from the slot's
    current content.
  \<^item> \<open>base64_EncodeToString\<close> is \<^verbatim>\<open>base64.StdEncoding.EncodeToString\<close> and \<open>Sprintf_2f\<close>
    is \<^verbatim>\<open>fmt.Sprintf("%.2f", amount)\<close>. A \<^verbatim>\<open>float64\<close> is a mantissa and a binary exponent, an
    infinity with its sign, or not a number; the library does no arithmetic on it.
  \<^item> \<open>clock\<close> gives the successive readings of \<^verbatim>\<open>time.Now()\<close> and \<open>uuids\<close> the
    successive values of \<^verbatim>\<open>uuid.New().String()\<close>.
  \<^item> \<open>sent\<close> is the log of the requests handed to the transport, oldest first;
    \<open>clock_reads\<close> and \<open>uuid_draws\<close> count the readings taken so far.
  An instant (\<^verbatim>\<open>time.Time\<close>) is a number of nanoseconds since the Unix epoch, and Go's
  \<^verbatim>\<open>int\<close>, \<^verbatim>\<open>int64\<close> and \<^verbatim>\<open>time.Duration\<close> are 64-bit words read as two's complement
  (a 64-bit platform).
\<close>

datatype json = JString string | JObject "(string \<times> json) list"

record HttpRequest =
  httpMethod :: string
  httpURL :: string
  httpBody :: "string option"
  httpHeader :: "(string \<times> string) list"
  httpRawQuery :: "(string \<times> string) list option"

record HttpResponse =
  StatusCode :: int
  ResponseBody :: string

type_synonym Time = int

record TokenResponse =
  AccessToken :: string
  TokenType :: string
  ExpiresIn :: "64 word"

record AccountHolderInfo =
  GivenName :: string
  FamilyName :: string
  Birthdate :: string
  Locale :: string
  Gender :: string
  Status :: string

datatype float64 = Finite int int | Infinity bool | NaN

type_synonym 'a unmarshal = "string \<Rightarrow> 'a \<Rightarrow> error option \<times> 'a"

record World =
  json_Marshal :: "json \<Rightarrow> error + string"
  http_NewRequest :: "string \<Rightarrow> string \<Rightarrow> error option"
  httpClient_Do :: "HttpRequest list \<Rightarrow> HttpRequest \<Rightarrow> error + HttpResponse"
  unmarshal_TokenResponse :: "TokenResponse unmarshal"
  unmarshal_APIKey :: "string unmarshal"
  unmarshal_AccountHolderInfo :: "AccountHolderInfo unmarshal"
  base64_EncodeToString :: "string \<Rightarrow> string"
  Sprintf_2f :: "float64 \<Rightarrow> string"
  clock :: "nat \<Rightarrow> Time"
  uuids :: "nat \<Rightarrow> string"
  sent :: "HttpRequest list"
  clock_reads :: nat
  uuid_draws :: nat

definition time_Now :: "World \<Rightarrow> Time \<times> World" where
  "time_Now w = (clock w (clock_reads w), w\<lparr>clock_reads := Suc (clock_reads w)\<rparr>)"

definition uuid_New :: "World \<Rightarrow> string \<times> World" where
  "uuid_New w = (uuids w (uuid_draws w), w\<lparr>uuid_draws := Suc (uuid_draws w)\<rparr>)"

text \<open>\<^verbatim>\<open>t.Before(u)\<close> and \<^verbatim>\<open>t.Add(d)\<close> on instants; \<^verbatim>\<open>time.Second\<close> is 10^9 nanoseconds.
  (\<^verbatim>\<open>Add\<close> saturates only at the ends of the range of \<^verbatim>\<open>time.Time\<close>, hundreds of billions
  of years away.)\<close>

definition Before :: "Time \<Rightarrow> Time \<Rightarrow> bool" where
  "Before t u = (t < u)"

definition Add :: "Time \<Rightarrow> 64 word \<Rightarrow> Time" where
  "Add t d = t + sint d"

definition Second :: "64 word" where
  "Second = 1000000000"

definition zeroTime :: Time where
  "zeroTime = - 62135596800000000000"

text \<open>
  \<^verbatim>\<open>json.NewDecoder(body).Decode(result)\<close> reads the next JSON value of the body into the
  slot. A body with nothing but white space has no next value and \<^verbatim>\<open>Decode\<close> returns
  \<^verbatim>\<open>io.EOF\<close>; otherwise the text is read at the slot's type.
\<close>

definition io_EOF :: error where
  "io_EOF = New ''EOF''"

definition json_space :: "char \<Rightarrow> bool" where
  "json_space c = (c = CHR '' '' \<or> c = CHR 0x09 \<or> c = CHR 0x0A \<or> c = CHR 0x0D)"

definition json_Decode :: "'a unmarshal \<Rightarrow> string \<Rightarrow> 'a \<Rightarrow> error option \<times> 'a" where
  "json_Decode unmarshal body v =
     (if filter (\<lambda>c. \<not> json_space c) body = [] then (Some io_EOF, v)
      else unmarshal body v)"

subsection \<open>The HTTP dispatcher\<close>

record Client =
  Client_config :: Config
  Client_Timeout :: "64 word"

definition NewClient :: "Config \<Rightarrow> Client" where
  "NewClient config = \<lparr>Client_config = config, Client_Timeout = 30 * Second\<rparr>"

record Request =
  Method :: string
  Path :: string
  Body :: "json option"
  Headers :: "(string \<times> string) list"
  QueryParams :: "(string \<times> string) list"

definition StatusNoContent :: int where
  "StatusNoContent = 204"

text \<open>
  \<^verbatim>\<open>DoRequest(ctx, req, result)\<close>. The output slot \<open>result\<close> is \<^const>\<open>None\<close> for a \<^verbatim>\<open>nil\<close>
  pointer and otherwise the slot's current content with the reader of its type. The
  function returns the error (\<^const>\<open>None\<close> for \<^verbatim>\<open>nil\<close>), the content of the slot
  afterwards, and the world. Header maps and query maps are association lists;
  \<^verbatim>\<open>Header.Set\<close> is \<^const>\<open>AList.update\<close>. The query of the URL is rewritten only when the
  request has query parameters.
\<close>

definition DoRequest ::
  "Client \<Rightarrow> Request \<Rightarrow> ('a \<times> 'a unmarshal) option \<Rightarrow> World
     \<Rightarrow> (error option \<times> 'a option) \<times> World" where
  "DoRequest c req result w =
     (case (case Body req of
              None \<Rightarrow> Inr None
            | Some body \<Rightarrow>
                (case json_Marshal w body of
                   Inl err \<Rightarrow> Inl err
                 | Inr bodyBytes \<Rightarrow> Inr (Some bodyBytes))) of
        Inl err \<Rightarrow>
          ((Some (Errorf_w ''error marshaling request body'' err), map_option fst result), w)
      | Inr bodyReader \<Rightarrow>
         (let url = ''https://'' @ Host (Client_config c) @ Path req
          in (case http_NewRequest w (Method req) url of
               Some err \<Rightarrow>
                 ((Some (Errorf_w ''error creating HTTP request'' err),
                   map_option fst result), w)
             | None \<Rightarrow>
                (let httpReq = \<lparr>httpMethod = Method req, httpURL = url,
                       httpBody = bodyReader,
                       httpHeader = foldl (\<lambda>h (key, val). AList.update key val h)
                         (AList.update ''Content-Type'' ''application/json'' [])
                         (Headers req),
                       httpRawQuery = (if length (QueryParams req) > 0
                                       then Some (QueryParams req) else None)\<rparr>;
                     w' = w\<lparr>sent := sent w @ [httpReq]\<rparr>
                 in (case httpClient_Do w (sent w) httpReq of
                      Inl err \<Rightarrow>
                        ((Some (Errorf_w ''error making HTTP request'' err),
                          map_option fst result), w')
                    | Inr resp \<Rightarrow>
                        if StatusCode resp < 200 \<or> StatusCode resp \<ge> 300
                        then ((Some (New (''API request failed with status code ''
                                 @ Itoa (StatusCode resp) @ '': '' @ ResponseBody resp)),
                               map_option fst result), w')
                        else (case result of
                                Some (v, unmarshal) \<Rightarrow>
                                  if StatusCode resp \<noteq> StatusNoContent
                                  then (case json_Decode unmarshal (ResponseBody resp) v of
                                          (Some err, v') \<Rightarrow>
                                            ((Some (Errorf_w ''error decoding response'' err),
                                              Some v'), w')
                                        | (None, v') \<Rightarrow> ((None, Some v'), w'))
                                  else ((None, Some v), w')
                              | None \<Rightarrow> ((None, None), w')))))))"

definition CreateBasicAuthHeader :: "World \<Rightarrow> string \<Rightarrow> string \<Rightarrow> string" where
  "CreateBasicAuthHeader w apiUser apiKey =
     (let auth = apiUser @ '':'' @ apiKey
      in ''Basic '' @ base64_EncodeToString w auth)"

subsection \<open>The authenticator\<close>

text \<open>
  The mutex of \<^verbatim>\<open>AuthService\<close> serialises the calls of \<^verbatim>\<open>GetAccessToken\<close>; the embedding
  is of one call running alone, so the lock has no field. The configuration is shared
  by pointer in Go and never written after \<^verbatim>\<open>NewConfig\<close>, so each holder has its value.
\<close>

record AuthService =
  client :: Client
  config :: Config
  accessToken :: string
  tokenExpiry :: Time

definition NewAuthService :: "Client \<Rightarrow> Config \<Rightarrow> AuthService" where
  "NewAuthService cl cfg =
     \<lparr>client = cl, config = cfg, accessToken = [], tokenExpiry = zeroTime\<rparr>"

definition CreateAPIUser :: "AuthService \<Rightarrow> World \<Rightarrow> (string \<times> error option) \<times> World" where
  "CreateAPIUser s w =
     (if Environment (config s) \<noteq> Sandbox
      then (([], Some (New ''creating API users is only available in sandbox mode'')), w)
      else
        let (apiUserID, w) = uuid_New w;
            payload = JObject [(''providerCallbackHost'', JString (CallbackHost (config s)))];
            req = \<lparr>Method = ''POST'', Path = ''/v1_0/apiuser'', Body = Some payload,
                   Headers = [(''X-Reference-Id'', apiUserID),
                              (''Ocp-Apim-Subscription-Key'', SubscriptionKey (config s))],
                   QueryParams = []\<rparr>
        in (case DoRequest (client s) req (None :: (unit \<times> unit unmarshal) option) w of
              ((Some err, _), w) \<Rightarrow> (([], Some (Errorf_w ''failed to create API user'' err)), w)
            | ((None, _), w) \<Rightarrow> ((apiUserID, None), w)))"

text \<open>The slot of \<^verbatim>\<open>CreateAPIKey\<close> is a struct with the one field \<^verbatim>\<open>APIKey\<close>, a string.\<close>

definition CreateAPIKey ::
  "AuthService \<Rightarrow> string \<Rightarrow> World \<Rightarrow> (string \<times> error option) \<times> World" where
  "CreateAPIKey s apiUserID w =
     (if Environment (config s) \<noteq> Sandbox
      then (([], Some (New ''creating API keys is only available in sandbox mode'')), w)
      else
        let req = \<lparr>Method = ''POST'', Path = ''/v1_0/apiuser/'' @ apiUserID @ ''/apikey'',
                   Body = None,
                   Headers = [(''Ocp-Apim-Subscription-Key'', SubscriptionKey (config s))],
                   QueryParams = []\<rparr>
        in (case DoRequest (client s) req (Some ([], unmarshal_APIKey w)) w of
              ((Some err, _), w) \<Rightarrow> (([], Some (Errorf_w ''failed to create API key'' err)), w)
            | ((None, result), w) \<Rightarrow>
                ((case result of Some k \<Rightarrow> k | None \<Rightarrow> [], None), w)))"

text \<open>
  \<^verbatim>\<open>GetAccessToken\<close> is embedded in three parts, in the order of its body:
  \<^item> \<open>cacheToken\<close>, the last statements (``Cache the token''): store the token, set the
    expiry from a fresh reading of the clock, return the token;
  \<^item> \<open>fetchAccessToken\<close>, the body after the cache check: choose the API user and key
    (creating them in the sandbox when one is not set), choose the token path and the
    subscription key by product, exchange, and cache;
  \<^item> \<open>GetAccessToken\<close> itself: the cache check, then the rest. Go evaluates
    \<^verbatim>\<open>s.accessToken != "" && time.Now().Before(s.tokenExpiry)\<close> from the left, so the
    clock is read only when a token is stored.
  Each returns the pair \<^verbatim>\<open>(string, error)\<close>, the service and the world afterwards.
\<close>

definition cacheToken ::
  "AuthService \<Rightarrow> TokenResponse \<Rightarrow> World \<Rightarrow> (string \<times> error option) \<times> AuthService \<times> World" where
  "cacheToken s tokenResp w =
     (let s = s\<lparr>accessToken := AccessToken tokenResp\<rparr>;
          (now, w) = time_Now w;
          s = s\<lparr>tokenExpiry := Add now ((ExpiresIn tokenResp - 60) * Second)\<rparr>
      in ((accessToken s, None), s, w))"

definition fetchAccessToken ::
  "AuthService \<Rightarrow> string \<Rightarrow> World \<Rightarrow> (string \<times> error option) \<times> AuthService \<times> World" where
  "fetchAccessToken s product w =
     (let apiUser = APIUser (config s);
          apiKey = APIKey (config s)
      in (case (if Environment (config s) = Sandbox \<and> (apiUser = [] \<or> apiKey = [])
                then (case CreateAPIUser s w of
                        ((_, Some err), w) \<Rightarrow> (Inl err, w)
                      | ((apiUser, None), w) \<Rightarrow>
                          (case CreateAPIKey s apiUser w of
                             ((_, Some err), w) \<Rightarrow> (Inl err, w)
                           | ((apiKey, None), w) \<Rightarrow> (Inr (apiUser, apiKey), w)))
                else (Inr (apiUser, apiKey), w)) of
            (Inl err, w) \<Rightarrow> (([], Some err), s, w)
          | (Inr (apiUser, apiKey), w) \<Rightarrow>
              (case (if product = ''collection''
                     then Some (''/collection/token/'', SubscriptionKey (config s))
                     else if product = ''disbursement''
                     then Some (''/disbursement/token/'', DisbursementKey (config s))
                     else None) of
                 None \<Rightarrow> (([], Some (New (''unknown product: '' @ product))), s, w)
               | Some (tokenPath, subscriptionKey) \<Rightarrow>
                  (let tokenResp = \<lparr>AccessToken = [], TokenType = [], ExpiresIn = 0\<rparr>;
                       req = \<lparr>Method = ''POST'', Path = tokenPath, Body = None,
                              Headers = [(''Authorization'',
                                            CreateBasicAuthHeader w apiUser apiKey),
                                         (''Ocp-Apim-Subscription-Key'', subscriptionKey)],
                              QueryParams = []\<rparr>
                   in (case DoRequest (client s) req
                              (Some (tokenResp, unmarshal_TokenResponse w)) w of
                         ((Some err, _), w) \<Rightarrow>
                           (([], Some (Errorf_w ''failed to fetch access token'' err)), s, w)
                       | ((None, result), w) \<Rightarrow>
                           cacheToken s
                             (case result of Some r \<Rightarrow> r | None \<Rightarrow> tokenResp) w)))))"

definition GetAccessToken ::
  "AuthService \<Rightarrow> string \<Rightarrow> World \<Rightarrow> (string \<times> error option) \<times> AuthService \<times> World" where
  "GetAccessToken s product w =
     (if accessToken s \<noteq> []
      then (let (now, w) = time_Now w
            in if Before now (tokenExpiry s) then ((accessToken s, None), s, w)
               else fetchAccessToken s product w)
      else fetchAccessToken s product w)"

subsection \<open>The product services\<close>

text \<open>
  The operations of the collection and disbursement services that take a phone number:
  \<^verbatim>\<open>RequestToPay\<close>, \<^verbatim>\<open>Transfer\<close> and the two \<^verbatim>\<open>GetAccountHolderInfo\<close>. Each service holds the
  client, the configuration and a pointer to the authenticator it shares with the other
  service; the authenticator is passed to each operation and returned from it.
  \<^verbatim>\<open>RequestToPayOptions\<close> and \<^verbatim>\<open>TransferOptions\<close> are two structs with the same six string
  fields (\<open>OptCurrency\<close> is their field \<^verbatim>\<open>Currency\<close>); a \<^verbatim>\<open>nil\<close> pointer to one is \<^const>\<open>None\<close>.
\<close>

record CollectionService =
  collection_client :: Client
  collection_config :: Config

record DisbursementService =
  disbursement_client :: Client
  disbursement_config :: Config

definition NewCollectionService :: "Client \<Rightarrow> Config \<Rightarrow> CollectionService" where
  "NewCollectionService cl cfg = \<lparr>collection_client = cl, collection_config = cfg\<rparr>"

definition NewDisbursementService :: "Client \<Rightarrow> Config \<Rightarrow> DisbursementService" where
  "NewDisbursementService cl cfg = \<lparr>disbursement_client = cl, disbursement_config = cfg\<rparr>"

record RequestToPayOptions =
  IdempotencyKey :: string
  ExternalID :: string
  ReferenceID :: string
  OptCurrency :: string
  PayerMessage :: string
  PayeeNote :: string

type_synonym TransferOptions = RequestToPayOptions

definition MSISDN :: string where
  "MSISDN = ''MSISDN''"

definition defaultIfEmpty :: "string \<Rightarrow> string \<Rightarrow> string" where
  "defaultIfEmpty val defaultValue = (if val = [] then defaultValue else val)"

definition RequestToPay ::
  "CollectionService \<Rightarrow> string \<Rightarrow> float64 \<Rightarrow> RequestToPayOptions option \<Rightarrow> AuthService
     \<Rightarrow> World \<Rightarrow> (string \<times> error option) \<times> AuthService \<times> World" where
  "RequestToPay s phone amount opts auth w =
     (let phone = formatPhoneNumber phone
      in (case GetAccessToken auth ''collection'' w of
            ((_, Some err), auth, w) \<Rightarrow>
              (([], Some (Errorf_w ''error getting access token'' err)), auth, w)
          | ((token, None), auth, w) \<Rightarrow>
             (let opts = (case opts of
                            None \<Rightarrow> \<lparr>IdempotencyKey = [], ExternalID = [], ReferenceID = [],
                                      OptCurrency = [], PayerMessage = [], PayeeNote = []\<rparr>
                          | Some given \<Rightarrow> given);
                  (referenceID, w) = (if ReferenceID opts = [] then uuid_New w
                                      else (ReferenceID opts, w));
                  (externalID, w) = (if ExternalID opts = [] then uuid_New w
                                     else (ExternalID opts, w));
                  currency = (if OptCurrency opts = [] then Currency (collection_config s)
                              else OptCurrency opts);
                  payload = JObject
                    [(''amount'', JString (Sprintf_2f w amount)),
                     (''currency'', JString currency),
                     (''externalId'', JString externalID),
                     (''payer'', JObject [(''partyIdType'', JString MSISDN),
                                          (''partyId'', JString phone)]),
                     (''payerMessage'',
                        JString (defaultIfEmpty (PayerMessage opts) ''Payment request'')),
                     (''payeeNote'',
                        JString (defaultIfEmpty (PayeeNote opts) ''Thank you for your payment''))];
                  headers =
                    [(''Authorization'', ''Bearer '' @ token),
                     (''X-Reference-Id'', referenceID),
                     (''X-Target-Environment'', TargetEnvironment (collection_config s)),
                     (''Ocp-Apim-Subscription-Key'', SubscriptionKey (collection_config s))]
                    @ (if IdempotencyKey opts \<noteq> []
                       then [(''X-Idempotency-Key'', IdempotencyKey opts)] else []);
                  req = \<lparr>Method = ''POST'', Path = ''/collection/v1_0/requesttopay'',
                         Body = Some payload, Headers = headers, QueryParams = []\<rparr>
              in (case DoRequest (collection_client s) req
                         (None :: (unit \<times> unit unmarshal) option) w of
                    ((Some err, _), w) \<Rightarrow>
                      (([], Some (Errorf_w ''error making request-to-pay'' err)), auth, w)
                  | ((None, _), w) \<Rightarrow> ((referenceID, None), auth, w)))))"

definition Collection_GetAccountHolderInfo ::
  "CollectionService \<Rightarrow> string \<Rightarrow> AuthService \<Rightarrow> World
     \<Rightarrow> (AccountHolderInfo option \<times> error option) \<times> AuthService \<times> World" where
  "Collection_GetAccountHolderInfo s phone auth w =
     (let phone = formatPhoneNumber phone
      in (case GetAccessToken auth ''collection'' w of
            ((_, Some err), auth, w) \<Rightarrow>
              ((None, Some (Errorf_w ''error getting access token'' err)), auth, w)
          | ((token, None), auth, w) \<Rightarrow>
             (let result = \<lparr>GivenName = [], FamilyName = [], Birthdate = [], Locale = [],
                            Gender = [], Status = []\<rparr>;
                  req = \<lparr>Method = ''GET'',
                         Path = ''/collection/v1_0/accountholder/MSISDN/'' @ phone
                                  @ ''/basicuserinfo'',
                         Body = None,
                         Headers =
                           [(''Authorization'', ''Bearer '' @ token),
                            (''X-Target-Environment'', TargetEnvironment (collection_config s)),
                            (''Ocp-Apim-Subscription-Key'',
                               SubscriptionKey (collection_config s))],
                         QueryParams = []\<rparr>
              in (case DoRequest (collection_client s) req
                         (Some (result, unmarshal_AccountHolderInfo w)) w of
                    ((Some err, _), w) \<Rightarrow>
                      ((None, Some (Errorf_w ''error getting account holder info'' err)),
                       auth, w)
                  | ((None, decoded), w) \<Rightarrow>
                      ((Some (case decoded of Some info \<Rightarrow> info | None \<Rightarrow> result), None),
                       auth, w)))))"

definition Transfer ::
  "DisbursementService \<Rightarrow> string \<Rightarrow> float64 \<Rightarrow> TransferOptions option \<Rightarrow> AuthService
     \<Rightarrow> World \<Rightarrow> (string \<times> error option) \<times> AuthService \<times> World" where
  "Transfer s phone amount opts auth w =
     (let phone = formatPhoneNumber phone
      in (case GetAccessToken auth ''disbursement'' w of
            ((_, Some err), auth, w) \<Rightarrow>
              (([], Some (Errorf_w ''error getting access token'' err)), auth, w)
          | ((token, None), auth, w) \<Rightarrow>
             (let opts = (case opts of
                            None \<Rightarrow> \<lparr>IdempotencyKey = [], ExternalID = [], ReferenceID = [],
                                      OptCurrency = [], PayerMessage = [], PayeeNote = []\<rparr>
                          | Some given \<Rightarrow> given);
                  (referenceID, w) = (if ReferenceID opts = [] then uuid_New w
                                      else (ReferenceID opts, w));
                  (externalID, w) = (if ExternalID opts = [] then uuid_New w
                                     else (ExternalID opts, w));
                  currency = (if OptCurrency opts = [] then Currency (disbursement_config s)
                              else OptCurrency opts);
                  payload = JObject
                    [(''amount'', JString (Sprintf_2f w amount)),
                     (''currency'', JString currency),
                     (''externalId'', JString externalID),
                     (''payee'', JObject [(''partyIdType'', JString MSISDN),
                                          (''partyId'', JString phone)]),
                     (''payerMessage'',
                        JString (defaultIfEmpty (PayerMessage opts) ''Disbursement payment'')),
                     (''payeeNote'',
                        JString (defaultIfEmpty (PayeeNote opts) ''Funds received''))];
                  headers =
                    [(''Authorization'', ''Bearer '' @ token),
                     (''X-Reference-Id'', referenceID),
                     (''X-Target-Environment'', TargetEnvironment (disbursement_config s)),
                     (''Ocp-Apim-Subscription-Key'', DisbursementKey (disbursement_config s))]
                    @ (if IdempotencyKey opts \<noteq> []
                       then [(''X-Idempotency-Key'', IdempotencyKey opts)] else []);
                  req = \<lparr>Method = ''POST'', Path = ''/disbursement/v1_0/transfer'',
                         Body = Some payload, Headers = headers, QueryParams = []\<rparr>
              in (case DoRequest (disbursement_client s) req
                         (None :: (unit \<times> unit unmarshal) option) w of
                    ((Some err, _), w) \<Rightarrow>
                      (([], Some (Errorf_w ''error making transfer'' err)), auth, w)
                  | ((None, _), w) \<Rightarrow> ((referenceID, None), auth, w)))))"

definition Disbursement_GetAccountHolderInfo ::
  "DisbursementService \<Rightarrow> string \<Rightarrow> AuthService \<Rightarrow> World
     \<Rightarrow> (AccountHolderInfo option \<times> error option) \<times> AuthService \<times> World" where
  "Disbursement_GetAccountHolderInfo s phone auth w =
     (let phone = formatPhoneNumber phone
      in (case GetAccessToken auth ''disbursement'' w of
            ((_, Some err), auth, w) \<Rightarrow>
              ((None, Some (Errorf_w ''error getting access token'' err)), auth, w)
          | ((token, None), auth, w) \<Rightarrow>
             (let result = \<lparr>GivenName = [], FamilyName = [], Birthdate = [], Locale = [],
                            Gender = [], Status = []\<rparr>;
                  req = \<lparr>Method = ''GET'',
                         Path = ''/disbursement/v1_0/accountholder/MSISDN/'' @ phone
                                  @ ''/basicuserinfo'',
                         Body = None,
                         Headers =
                           [(''Authorization'', ''Bearer '' @ token),
                            (''X-Target-Environment'', TargetEnvironment (disbursement_config s)),
                            (''Ocp-Apim-Subscription-Key'',
                               DisbursementKey (disbursement_config s))],
                         QueryParams = []\<rparr>
              in (case DoRequest (disbursement_client s) req
                         (Some (result, unmarshal_AccountHolderInfo w)) w of
                    ((Some err, _), w) \<Rightarrow>
                      ((None, Some (Errorf_w ''error getting account holder info'' err)),
                       auth, w)
                  | ((None, decoded), w) \<Rightarrow>
                      ((Some (case decoded of Some info \<Rightarrow> info | None \<Rightarrow> result), None),
                       auth, w)))))"

text \<open>The party identifier of a transaction payload: the member \<^verbatim>\<open>partyId\<close> of its member
  \<open>party\<close> (\<^verbatim>\<open>payer\<close> or \<^verbatim>\<open>payee\<close>).\<close>

fun json_member :: "string \<Rightarrow> json \<Rightarrow> json option" where
  "json_member name (JObject members) = map_of members name"
| "json_member name (JString text) = None"

definition party_id :: "string \<Rightarrow> json \<Rightarrow> json option" where
  "party_id party payload =
     (case json_member party payload of
        None \<Rightarrow> None
      | Some info \<Rightarrow> json_member ''partyId'' info)"

subsection \<open>Concrete configurations and worlds\<close>

text \<open>
  Closed inputs on which the functions above are evaluated: a production configuration
  with credentials, a sandbox configuration without, and a world whose peer answers
  every request from a fixed table (by URL). The reader of the token slot takes the text
  of the reply as the access token and \<open>expires_in\<close> as its lifetime; the clock advances by
  one second per reading.
\<close>

definition production_config :: Config where
  "production_config =
     \<lparr>SubscriptionKey = ''sub-key'', DisbursementKey = ''dis-key'',
      TargetEnvironment = ''mtnliberia'', CallbackHost = [], APIUser = ''user'',
      APIKey = ''key'', Environment = Production, Currency = ''LRD'',
      Host = ''momo.example''\<rparr>"

definition sandbox_config :: Config where
  "sandbox_config =
     \<lparr>SubscriptionKey = ''sub-key'', DisbursementKey = [], TargetEnvironment = ''sandbox'',
      CallbackHost = ''callback.example'', APIUser = [], APIKey = [],
      Environment = Sandbox, Currency = ''EUR'', Host = ''sandbox.momodeveloper.mtn.com''\<rparr>"

definition scripted_world :: "(string \<Rightarrow> HttpResponse) \<Rightarrow> 64 word \<Rightarrow> World" where
  "scripted_world reply expires_in =
     \<lparr>json_Marshal = (\<lambda>j. Inr ''{}''),
      http_NewRequest = (\<lambda>m u. None),
      httpClient_Do = (\<lambda>log r. Inr (reply (httpURL r))),
      unmarshal_TokenResponse =
        (\<lambda>text v. (None, v\<lparr>AccessToken := text, ExpiresIn := expires_in\<rparr>)),
      unmarshal_APIKey = (\<lambda>text v. (None, text)),
      unmarshal_AccountHolderInfo = (\<lambda>text v. (None, v\<lparr>GivenName := text\<rparr>)),
      base64_EncodeToString = (\<lambda>s. s),
      Sprintf_2f = (\<lambda>x. ''5.00''),
      clock = (\<lambda>n. int n * 1000000000),
      uuids = (\<lambda>n. ''6f1c3a52-0000-4000-8000-000000000000''),
      sent = [], clock_reads = 0, uuid_draws = 0\<rparr>"

definition token_replies :: "string \<Rightarrow> HttpResponse" where
  "token_replies url =
     \<lparr>StatusCode = 200,
      ResponseBody = (if url = ''https://momo.example/collection/token/''
                      then ''collection-token''
                      else if url = ''https://momo.example/disbursement/token/''
                      then ''disbursement-token''
                      else ''created'')\<rparr>"

definition forbidden_reply :: "string \<Rightarrow> HttpResponse" where
  "forbidden_reply url = \<lparr>StatusCode = 403, ResponseBody = ''Forbidden''\<rparr>"

definition empty_ok_reply :: "string \<Rightarrow> HttpResponse" where
  "empty_ok_reply url = \<lparr>StatusCode = 200, ResponseBody = []\<rparr>"

definition balance_request :: Request where
  "balance_request =
     \<lparr>Method = ''GET'', Path = ''/collection/v1_0/account/balance'', Body = None,
      Headers = [(''X-Target-Environment'', ''mtnliberia'')], QueryParams = []\<rparr>"

definition balance_http_request :: HttpRequest where
  "balance_http_request =
     \<lparr>httpMethod = ''GET'', httpURL = ''https://momo.example/collection/v1_0/account/balance'',
      httpBody = None,
      httpHeader = [(''Content-Type'', ''application/json''),
                    (''X-Target-Environment'', ''mtnliberia'')],
      httpRawQuery = None\<rparr>"

definition collection_token_request :: HttpRequest where
  "collection_token_request =
     \<lparr>httpMethod = ''POST'', httpURL = ''https://momo.example/collection/token/'',
      httpBody = None,
      httpHeader = [(''Content-Type'', ''application/json''),
                    (''Authorization'', ''Basic user:key''),
                    (''Ocp-Apim-Subscription-Key'', ''sub-key'')],
      httpRawQuery = None\<rparr>"

definition production_auth :: AuthService where
  "production_auth = NewAuthService (NewClient production_config) production_config"

definition sandbox_auth :: AuthService where
  "sandbox_auth = NewAuthService (NewClient sandbox_config) sandbox_config"

definition collection_service :: CollectionService where
  "collection_service = NewCollectionService (NewClient production_config) production_config"

text \<open>
  The disbursement side of the production scenario, and a world for the operations that
  carry a payload: its serialiser writes the party identifier of the named party (\<^verbatim>\<open>payer\<close>
  or \<^verbatim>\<open>payee\<close>) of the payload, so that the body of a logged request shows the identifier
  that was sent.
\<close>

definition party_marshal :: "string \<Rightarrow> json \<Rightarrow> error + string" where
  "party_marshal party payload =
     Inr (case party_id party payload of
            Some (JString number) \<Rightarrow> number
          | _ \<Rightarrow> ''{}'')"

definition payment_world :: "string \<Rightarrow> World" where
  "payment_world party =
     (scripted_world token_replies 3600)\<lparr>json_Marshal := party_marshal party\<rparr>"

definition disbursement_token_request :: HttpRequest where
  "disbursement_token_request =
     \<lparr>httpMethod = ''POST'', httpURL = ''https://momo.example/disbursement/token/'',
      httpBody = None,
      httpHeader = [(''Content-Type'', ''application/json''),
                    (''Authorization'', ''Basic user:key''),
                    (''Ocp-Apim-Subscription-Key'', ''dis-key'')],
      httpRawQuery = None\<rparr>"

definition disbursement_service :: DisbursementService where
  "disbursement_service = NewDisbursementService (NewClient production_config) production_config"

section \<open>Verification\<close>

subsection \<open>Properties of phone-number normalisation\<close>

lemma is_digit_iff: "is_digit c \<longleftrightarrow> CHR ''0'' \<le> c \<and> c \<le> CHR ''9''"
proof -
  have "(48 \<le> (n::nat) \<and> n \<le> 57) \<longleftrightarrow> n \<in> {48, 49, 50, 51, 52, 53, 54, 55, 56, 57}" for n
    by (simp, presburger)
  then have iff: "(48 \<le> (of_char c :: nat) \<and> (of_char c :: nat) \<le> 57)
      \<longleftrightarrow> (of_char c :: nat) \<in> of_char ` set ''0123456789''"
    by simp
  have "(of_char c :: nat) \<in> of_char ` set ''0123456789'' \<longleftrightarrow> c \<in> set ''0123456789''"
    by (rule inj_image_mem_iff) (simp add: inj_on_def)
  with iff show ?thesis
    by (simp add: is_digit_def less_eq_char_def)
qed

lemma strings_Map_digits:
  "strings_Map (\<lambda>r. if r \<ge> CHR ''0'' \<and> r \<le> CHR ''9'' then Some r else None) s
     = filter is_digit s"
  by (induction s) (simp_all add: is_digit_iff)

lemma strings_HasPrefix_iff: "strings_HasPrefix s pre \<longleftrightarrow> prefix pre s"
  unfolding strings_HasPrefix_def prefix_def
  by (metis append_eq_conv_conj append_take_drop_id length_append le_add1)

lemma leading_zero_iff: "(length s > 0 \<and> s ! 0 = CHR ''0'') \<longleftrightarrow> prefix ''0'' s"
  by (cases s) auto

lemma formatPhoneNumber_spec: "formatPhoneNumber phone = phone_normalization_spec phone"
  unfolding formatPhoneNumber_def phone_normalization_spec_def Let_def
    strings_Map_digits strings_HasPrefix_iff leading_zero_iff
  by (simp add: drop_Suc)

lemma formatPhoneNumber_digits: "list_all is_digit (formatPhoneNumber phone)"
proof -
  have stripped: "list_all is_digit (filter is_digit phone)"
    by (simp add: list_all_iff)
  then have rest: "list_all is_digit (tl (filter is_digit phone))"
    by (cases "filter is_digit phone") simp_all
  have code: "list_all is_digit ''231''"
    by (simp add: is_digit_def)
  from stripped rest code show ?thesis
    unfolding formatPhoneNumber_spec phone_normalization_spec_def Let_def
    by simp
qed

lemma formatPhoneNumber_prefix: "prefix ''231'' (formatPhoneNumber phone)"
  unfolding formatPhoneNumber_spec phone_normalization_spec_def Let_def
  by simp

text \<open>
  Claim C7. Phone normalisation strips all non-digit characters; a result starting with
  \<^verbatim>\<open>"0"\<close> has that zero replaced by \<^verbatim>\<open>"231"\<close>, any other result gets \<^verbatim>\<open>"231"\<close>
  prepended unless it already starts with it. Input \<^verbatim>\<open>"0733123454"\<close> and input
  \<^verbatim>\<open>"733123454"\<close> both map to \<^verbatim>\<open>"231733123454"\<close>, and \<^verbatim>\<open>"231733123454"\<close> is unchanged.
\<close>

theorem C7_formatPhoneNumber_as_specified:
  "formatPhoneNumber phone = phone_normalization_spec phone
   \<and> formatPhoneNumber ''0733123454'' = ''231733123454''
   \<and> formatPhoneNumber ''733123454'' = ''231733123454''
   \<and> formatPhoneNumber ''231733123454'' = ''231733123454''"
proof -
  have "formatPhoneNumber ''0733123454'' = ''231733123454''"
    by (simp add: formatPhoneNumber_def strings_HasPrefix_def)
  moreover have "formatPhoneNumber ''733123454'' = ''231733123454''"
    by (simp add: formatPhoneNumber_def strings_HasPrefix_def)
  moreover have "formatPhoneNumber ''231733123454'' = ''231733123454''"
    by (simp add: formatPhoneNumber_def strings_HasPrefix_def)
  ultimately show ?thesis
    using formatPhoneNumber_spec by simp
qed

subsection \<open>Configuration\<close>

lemma Validate_ok:
  assumes "Validate c = (None, c')"
  shows "c' = c\<lparr>DisbursementKey :=
                  (if DisbursementKey c = [] then SubscriptionKey c else DisbursementKey c)\<rparr>"
    and "SubscriptionKey c \<noteq> []" and "TargetEnvironment c \<noteq> []" and "Host c \<noteq> []"
    and "Currency c \<noteq> []"
    and "\<not> (Environment c = Production \<and> APIUser c = [] \<and> APIKey c = [])"
  using assms by (auto simp: Validate_def Let_def split: if_splits)

lemma NewConfig_SomeD:
  assumes "NewConfig environment opts = (Some c, None)"
  shows "\<exists>cfg. Validate cfg = (None, c)"
proof -
  obtain e cfg' where v: "Validate (foldl (\<lambda>c opt. opt c)
      (if environment = Sandbox
       then \<lparr>SubscriptionKey = [], DisbursementKey = [], TargetEnvironment = [],
              CallbackHost = [], APIUser = [], APIKey = [],
              Environment = environment, Currency = ''EUR'', Host = []\<rparr>
            \<lparr>Host := ''sandbox.momodeveloper.mtn.com'', TargetEnvironment := ''sandbox''\<rparr>
       else if environment = Production
       then \<lparr>SubscriptionKey = [], DisbursementKey = [], TargetEnvironment = [],
              CallbackHost = [], APIUser = [], APIKey = [],
              Environment = environment, Currency = ''EUR'', Host = []\<rparr>\<lparr>Currency := []\<rparr>
       else \<lparr>SubscriptionKey = [], DisbursementKey = [], TargetEnvironment = [],
              CallbackHost = [], APIUser = [], APIKey = [],
              Environment = environment, Currency = ''EUR'', Host = []\<rparr>) opts) = (e, cfg')"
    by (meson surj_pair)
  with assms have "e = None \<and> cfg' = c"
    unfolding NewConfig_def Let_def by (cases e) simp_all
  with v show ?thesis by blast
qed

text \<open>
  What holds of construction: \<^const>\<open>NewConfig\<close> returns either an error and no
  configuration, or a configuration and no error; a configuration it returns has a
  subscription key, a target environment, a host, a currency and a disbursement key, and
  in production an API user or an API key.
\<close>

lemma NewConfig_result:
  "(\<exists>err. NewConfig environment opts = (None, Some err))
   \<or> (\<exists>c. NewConfig environment opts = (Some c, None))"
  by (auto simp: NewConfig_def Let_def split: prod.splits option.splits)

lemma NewConfig_success:
  assumes "NewConfig environment opts = (Some c, None)"
  shows "SubscriptionKey c \<noteq> []" and "TargetEnvironment c \<noteq> []" and "Host c \<noteq> []"
    and "Currency c \<noteq> []" and "DisbursementKey c \<noteq> []"
    and "Environment c = Production \<Longrightarrow> APIUser c \<noteq> [] \<or> APIKey c \<noteq> []"
proof -
  from NewConfig_SomeD [OF assms] obtain cfg where v: "Validate cfg = (None, c)" by blast
  note ok = Validate_ok [OF v]
  show "SubscriptionKey c \<noteq> []" using ok by auto
  show "TargetEnvironment c \<noteq> []" using ok by auto
  show "Host c \<noteq> []" using ok by auto
  show "Currency c \<noteq> []" using ok by auto
  show "DisbursementKey c \<noteq> []" using ok by auto
  show "Environment c = Production \<Longrightarrow> APIUser c \<noteq> [] \<or> APIKey c \<noteq> []" using ok by auto
qed

text \<open>
  Claim C4. \<^verbatim>\<open>NewConfig\<close> is to fail with a configuration error, returning no
  configuration, whenever the resulting configuration lacks the subscription key, the
  target environment, the host or, in production mode, the API user/key pair; so that
  after construction these and the currency are non-empty and a production configuration
  has a user/key pair. All of it holds (\<open>NewConfig_result\<close>, \<open>NewConfig_success\<close>) but the
  pair: the check in \<^verbatim>\<open>Validate\<close> joins its two tests with \<^verbatim>\<open>&&\<close> and so rejects a
  production configuration only when both the user and the key are empty, although its
  message reads ``API user and key are required for production''. Evaluated on production
  options that set an API user and no API key, construction succeeds with an empty API
  key.
\<close>

theorem C4_NewConfig_production_user_without_key:
  "NewConfig Production
     [WithSubscriptionKey ''sub-key'', WithTargetEnvironment ''mtnliberia'',
      WithHost ''momo.example'', WithCurrency ''LRD'', WithAPIUser ''user'']
   = (Some \<lparr>SubscriptionKey = ''sub-key'', DisbursementKey = ''sub-key'',
            TargetEnvironment = ''mtnliberia'', CallbackHost = [], APIUser = ''user'',
            APIKey = [], Environment = Production, Currency = ''LRD'',
            Host = ''momo.example''\<rparr>, None)"
  by (simp add: NewConfig_def Validate_def Sandbox_def Production_def
      WithSubscriptionKey_def WithTargetEnvironment_def WithHost_def WithCurrency_def
      WithAPIUser_def)

text \<open>
  Claim C9. For every configuration that passes validation: if its disbursement key was
  empty when \<^verbatim>\<open>Validate\<close> was called, the validated configuration's disbursement key
  equals its subscription key, and no error is reported for it; a non-empty disbursement
  key is left unchanged. Nothing else of the configuration changes.
\<close>

theorem C9_Validate_defaults_disbursement_key:
  assumes "Validate c = (None, c')"
  shows "(DisbursementKey c = [] \<longrightarrow> DisbursementKey c' = SubscriptionKey c')
       \<and> (DisbursementKey c \<noteq> [] \<longrightarrow> DisbursementKey c' = DisbursementKey c)
       \<and> c' = c\<lparr>DisbursementKey := DisbursementKey c'\<rparr>"
  using assms by (auto simp: Validate_def Let_def split: if_splits)

theorem C9_Validate_defaults_disbursement_key_witness:
  "Validate sandbox_config = (None, sandbox_config\<lparr>DisbursementKey := ''sub-key''\<rparr>)
   \<and> DisbursementKey sandbox_config = []
   \<and> DisbursementKey (sandbox_config\<lparr>DisbursementKey := ''sub-key''\<rparr>)
       = SubscriptionKey (sandbox_config\<lparr>DisbursementKey := ''sub-key''\<rparr>)"
proof -
  have v: "Validate sandbox_config = (None, sandbox_config\<lparr>DisbursementKey := ''sub-key''\<rparr>)"
    by (simp add: Validate_def sandbox_config_def Sandbox_def Production_def)
  from C9_Validate_defaults_disbursement_key [OF v] show ?thesis
    using v by (simp add: sandbox_config_def)
qed

subsection \<open>The dispatcher\<close>

lemmas scenario_defs =
  production_config_def sandbox_config_def scripted_world_def token_replies_def
  forbidden_reply_def empty_ok_reply_def balance_request_def balance_http_request_def
  collection_token_request_def collection_service_def NewCollectionService_def
  production_auth_def sandbox_auth_def NewAuthService_def NewClient_def
  Sandbox_def Production_def zeroTime_def

lemmas dispatch_defs =
  DoRequest_def json_Decode_def json_space_def StatusNoContent_def Errorf_w_def
  io_EOF_def Itoa_def Let_def

lemmas auth_defs =
  GetAccessToken_def fetchAccessToken_def cacheToken_def CreateAPIUser_def
  CreateAPIKey_def CreateBasicAuthHeader_def time_Now_def uuid_New_def Before_def
  Add_def Second_def

text \<open>
  The anatomy of a call of \<^const>\<open>DoRequest\<close>: either it fails before anything is sent
  (the body does not serialise, or the request cannot be created) and the world is
  unchanged, or exactly one request is appended to the log, to the URL of the host and
  the path and with the serialised body, and the outcome is read off the transport's
  answer to it.
\<close>

lemma DoRequest_anatomy:
  "(\<exists>e. DoRequest c req result w = ((Some e, map_option fst result), w))
   \<or> (\<exists>hr. httpURL hr = ''https://'' @ Host (Client_config c) @ Path req
          \<and> (case Body req of
                None \<Rightarrow> httpBody hr = None
              | Some body \<Rightarrow> \<exists>bytes. json_Marshal w body = Inr bytes \<and> httpBody hr = Some bytes)
          \<and> DoRequest c req result w =
              ((case httpClient_Do w (sent w) hr of
                  Inl e \<Rightarrow> (Some (Errorf_w ''error making HTTP request'' e), map_option fst result)
                | Inr resp \<Rightarrow>
                    if StatusCode resp < 200 \<or> StatusCode resp \<ge> 300
                    then (Some (New (''API request failed with status code ''
                            @ Itoa (StatusCode resp) @ '': '' @ ResponseBody resp)),
                          map_option fst result)
                    else (case result of
                            None \<Rightarrow> (None, None)
                          | Some (v, unmarshal) \<Rightarrow>
                              if StatusCode resp = 204 then (None, Some v)
                              else (map_option (Errorf_w ''error decoding response'')
                                      (fst (json_Decode unmarshal (ResponseBody resp) v)),
                                    Some (snd (json_Decode unmarshal (ResponseBody resp) v))))),
               w\<lparr>sent := sent w @ [hr]\<rparr>))"
proof (cases "case Body req of
                None \<Rightarrow> Inr None
              | Some body \<Rightarrow>
                  (case json_Marshal w body of
                     Inl err \<Rightarrow> Inl err
                   | Inr bodyBytes \<Rightarrow> Inr (Some bodyBytes))")
  case (Inl e)
  then show ?thesis
    by (simp add: DoRequest_def)
next
  case marshal: (Inr bodyReader)
  show ?thesis
  proof (cases "http_NewRequest w (Method req) (''https://'' @ Host (Client_config c) @ Path req)")
    case (Some e)
    with marshal show ?thesis
      by (simp add: DoRequest_def)
  next
    case None
    define hr where "hr =
      \<lparr>httpMethod = Method req, httpURL = ''https://'' @ Host (Client_config c) @ Path req,
       httpBody = bodyReader,
       httpHeader = foldl (\<lambda>h (key, val). AList.update key val h)
                      (AList.update ''Content-Type'' ''application/json'' []) (Headers req),
       httpRawQuery = (if length (QueryParams req) > 0 then Some (QueryParams req) else None)\<rparr>"
    have url: "httpURL hr = ''https://'' @ Host (Client_config c) @ Path req"
      by (simp add: hr_def)
    have body: "case Body req of
                  None \<Rightarrow> httpBody hr = None
                | Some body \<Rightarrow> \<exists>bytes. json_Marshal w body = Inr bytes \<and> httpBody hr = Some bytes"
      using marshal by (auto simp: hr_def split: option.splits sum.splits)
    have eq: "DoRequest c req result w =
       (case httpClient_Do w (sent w) hr of
          Inl err \<Rightarrow>
            ((Some (Errorf_w ''error making HTTP request'' err), map_option fst result),
             w\<lparr>sent := sent w @ [hr]\<rparr>)
        | Inr resp \<Rightarrow>
            if StatusCode resp < 200 \<or> StatusCode resp \<ge> 300
            then ((Some (New (''API request failed with status code ''
                     @ Itoa (StatusCode resp) @ '': '' @ ResponseBody resp)),
                   map_option fst result), w\<lparr>sent := sent w @ [hr]\<rparr>)
            else (case result of
                    Some (v, unmarshal) \<Rightarrow>
                      if StatusCode resp \<noteq> 204
                      then (case json_Decode unmarshal (ResponseBody resp) v of
                              (Some err, v') \<Rightarrow>
                                ((Some (Errorf_w ''error decoding response'' err), Some v'),
                                 w\<lparr>sent := sent w @ [hr]\<rparr>)
                            | (None, v') \<Rightarrow> ((None, Some v'), w\<lparr>sent := sent w @ [hr]\<rparr>))
                      else ((None, Some v), w\<lparr>sent := sent w @ [hr]\<rparr>)
                  | None \<Rightarrow> ((None, None), w\<lparr>sent := sent w @ [hr]\<rparr>)))"
      unfolding DoRequest_def Let_def marshal StatusNoContent_def
      apply (simp only: None sum.case option.case)
      unfolding hr_def [symmetric]
      apply (rule refl)
      done
    have "DoRequest c req result w =
              ((case httpClient_Do w (sent w) hr of
                  Inl e \<Rightarrow> (Some (Errorf_w ''error making HTTP request'' e), map_option fst result)
                | Inr resp \<Rightarrow>
                    if StatusCode resp < 200 \<or> StatusCode resp \<ge> 300
                    then (Some (New (''API request failed with status code ''
                            @ Itoa (StatusCode resp) @ '': '' @ ResponseBody resp)),
                          map_option fst result)
                    else (case result of
                            None \<Rightarrow> (None, None)
                          | Some (v, unmarshal) \<Rightarrow>
                              if StatusCode resp = 204 then (None, Some v)
                              else (map_option (Errorf_w ''error decoding response'')
                                      (fst (json_Decode unmarshal (ResponseBody resp) v)),
                                    Some (snd (json_Decode unmarshal (ResponseBody resp) v))))),
               w\<lparr>sent := sent w @ [hr]\<rparr>)"
    proof (cases "httpClient_Do w (sent w) hr")
      case (Inl e)
      show ?thesis unfolding eq Inl by simp
    next
      case transport: (Inr resp)
      show ?thesis
      proof (cases "StatusCode resp < 200 \<or> StatusCode resp \<ge> 300")
        case True
        then show ?thesis unfolding eq transport by simp
      next
        case status: False
        show ?thesis
        proof (cases result)
          case None
          show ?thesis unfolding eq transport using status None by simp
        next
          case (Some slot)
          obtain v unmarshal where slot: "slot = (v, unmarshal)" by (cases slot)
          obtain eo v' where dec: "json_Decode unmarshal (ResponseBody resp) v = (eo, v')"
            by (cases "json_Decode unmarshal (ResponseBody resp) v")
          show ?thesis
            unfolding eq transport
            using status dec Some slot by (cases eo) simp_all
        qed
      qed
    qed
    with url body show ?thesis
      by blast
  qed
qed


lemma DoRequest_dispatched:
  assumes run: "DoRequest c req result w = ((err, out), w')"
      and log: "sent w' = sent w @ [httpReq]"
      and resp: "httpClient_Do w (sent w) httpReq = Inr resp"
  shows "if StatusCode resp < 200 \<or> StatusCode resp \<ge> 300
         then err = Some (New (''API request failed with status code ''
                 @ Itoa (StatusCode resp) @ '': '' @ ResponseBody resp))
         else err = (case result of
                None \<Rightarrow> None
              | Some (v, unmarshal) \<Rightarrow>
                  if StatusCode resp = 204 then None
                  else map_option (Errorf_w ''error decoding response'')
                         (fst (json_Decode unmarshal (ResponseBody resp) v)))
              \<and> (StatusCode resp = 204 \<longrightarrow> out = map_option fst result)"
proof -
  from DoRequest_anatomy [of c req result w] run log
  obtain hr where
    "DoRequest c req result w =
       ((case httpClient_Do w (sent w) hr of
           Inl e \<Rightarrow> (Some (Errorf_w ''error making HTTP request'' e), map_option fst result)
         | Inr resp \<Rightarrow>
             if StatusCode resp < 200 \<or> StatusCode resp \<ge> 300
             then (Some (New (''API request failed with status code ''
                     @ Itoa (StatusCode resp) @ '': '' @ ResponseBody resp)),
                   map_option fst result)
             else (case result of
                     None \<Rightarrow> (None, None)
                   | Some (v, unmarshal) \<Rightarrow>
                       if StatusCode resp = 204 then (None, Some v)
                       else (map_option (Errorf_w ''error decoding response'')
                               (fst (json_Decode unmarshal (ResponseBody resp) v)),
                             Some (snd (json_Decode unmarshal (ResponseBody resp) v))))),
        w\<lparr>sent := sent w @ [hr]\<rparr>)"
    by auto
  with run log have "httpReq = hr"
    and "(err, out) =
       (case httpClient_Do w (sent w) hr of
           Inl e \<Rightarrow> (Some (Errorf_w ''error making HTTP request'' e), map_option fst result)
         | Inr resp \<Rightarrow>
             if StatusCode resp < 200 \<or> StatusCode resp \<ge> 300
             then (Some (New (''API request failed with status code ''
                     @ Itoa (StatusCode resp) @ '': '' @ ResponseBody resp)),
                   map_option fst result)
             else (case result of
                     None \<Rightarrow> (None, None)
                   | Some (v, unmarshal) \<Rightarrow>
                       if StatusCode resp = 204 then (None, Some v)
                       else (map_option (Errorf_w ''error decoding response'')
                               (fst (json_Decode unmarshal (ResponseBody resp) v)),
                             Some (snd (json_Decode unmarshal (ResponseBody resp) v)))))"
    by auto
  with resp show ?thesis
    by (cases result) (auto split: if_splits)
qed

lemma DoRequest_sent:
  assumes "DoRequest c req result w = (r, w')"
  shows "w' = w
       \<or> (\<exists>hr. w' = w\<lparr>sent := sent w @ [hr]\<rparr>
             \<and> httpURL hr = ''https://'' @ Host (Client_config c) @ Path req
             \<and> (case Body req of
                   None \<Rightarrow> httpBody hr = None
                 | Some body \<Rightarrow> \<exists>bytes. json_Marshal w body = Inr bytes \<and> httpBody hr = Some bytes))"
  using DoRequest_anatomy [of c req result w] assms
  by auto

text \<open>
  The world after a call: the dispatcher changes nothing but the log of requests, to which
  it appends the request it built once the body is serialised and the request constructed;
  a call that returns no error got a response with a 2xx status for that request.
\<close>

lemma DoRequest_world:
  "snd (DoRequest c req result w) =
     (case (case Body req of
              None \<Rightarrow> Inr None
            | Some body \<Rightarrow>
                (case json_Marshal w body of
                   Inl err \<Rightarrow> Inl err
                 | Inr bodyBytes \<Rightarrow> Inr (Some bodyBytes))) of
        Inl err \<Rightarrow> w
      | Inr bodyReader \<Rightarrow>
          (case http_NewRequest w (Method req)
                  (''https://'' @ Host (Client_config c) @ Path req) of
             Some err \<Rightarrow> w
           | None \<Rightarrow>
               w\<lparr>sent := sent w @
                 [\<lparr>httpMethod = Method req,
                   httpURL = ''https://'' @ Host (Client_config c) @ Path req,
                   httpBody = bodyReader,
                   httpHeader = foldl (\<lambda>h (key, val). AList.update key val h)
                                  (AList.update ''Content-Type'' ''application/json'' [])
                                  (Headers req),
                   httpRawQuery = (if length (QueryParams req) > 0
                                   then Some (QueryParams req) else None)\<rparr>]\<rparr>))"
proof (cases "case Body req of
                None \<Rightarrow> Inr None
              | Some body \<Rightarrow>
                  (case json_Marshal w body of
                     Inl err \<Rightarrow> Inl err
                   | Inr bodyBytes \<Rightarrow> Inr (Some bodyBytes))")
  case (Inl e)
  then show ?thesis
    by (simp add: DoRequest_def)
next
  case marshal: (Inr bodyReader)
  show ?thesis
  proof (cases "http_NewRequest w (Method req) (''https://'' @ Host (Client_config c) @ Path req)")
    case (Some e)
    with marshal show ?thesis
      by (simp add: DoRequest_def)
  next
    case None
    define hr where "hr =
      \<lparr>httpMethod = Method req, httpURL = ''https://'' @ Host (Client_config c) @ Path req,
       httpBody = bodyReader,
       httpHeader = foldl (\<lambda>h (key, val). AList.update key val h)
                      (AList.update ''Content-Type'' ''application/json'' []) (Headers req),
       httpRawQuery = (if length (QueryParams req) > 0 then Some (QueryParams req) else None)\<rparr>"
    have eq: "DoRequest c req result w =
       (case httpClient_Do w (sent w) hr of
          Inl err \<Rightarrow>
            ((Some (Errorf_w ''error making HTTP request'' err), map_option fst result),
             w\<lparr>sent := sent w @ [hr]\<rparr>)
        | Inr resp \<Rightarrow>
            if StatusCode resp < 200 \<or> StatusCode resp \<ge> 300
            then ((Some (New (''API request failed with status code ''
                     @ Itoa (StatusCode resp) @ '': '' @ ResponseBody resp)),
                   map_option fst result), w\<lparr>sent := sent w @ [hr]\<rparr>)
            else (case result of
                    Some (v, unmarshal) \<Rightarrow>
                      if StatusCode resp \<noteq> 204
                      then (case json_Decode unmarshal (ResponseBody resp) v of
                              (Some err, v') \<Rightarrow>
                                ((Some (Errorf_w ''error decoding response'' err), Some v'),
                                 w\<lparr>sent := sent w @ [hr]\<rparr>)
                            | (None, v') \<Rightarrow> ((None, Some v'), w\<lparr>sent := sent w @ [hr]\<rparr>))
                      else ((None, Some v), w\<lparr>sent := sent w @ [hr]\<rparr>)
                  | None \<Rightarrow> ((None, None), w\<lparr>sent := sent w @ [hr]\<rparr>)))"
      unfolding DoRequest_def Let_def marshal StatusNoContent_def
      apply (simp only: None sum.case option.case)
      unfolding hr_def [symmetric]
      apply (rule refl)
      done
    have "snd (DoRequest c req result w) = w\<lparr>sent := sent w @ [hr]\<rparr>"
    proof (cases "httpClient_Do w (sent w) hr")
      case (Inl e)
      show ?thesis unfolding eq Inl by simp
    next
      case transport: (Inr resp)
      show ?thesis
      proof (cases "StatusCode resp < 200 \<or> StatusCode resp \<ge> 300")
        case True
        then show ?thesis unfolding eq transport by simp
      next
        case status: False
        show ?thesis
        proof (cases result)
          case None
          show ?thesis unfolding eq transport using status None by simp
        next
          case (Some slot)
          obtain v unmarshal where slot: "slot = (v, unmarshal)" by (cases slot)
          obtain eo v' where dec: "json_Decode unmarshal (ResponseBody resp) v = (eo, v')"
            by (cases "json_Decode unmarshal (ResponseBody resp) v")
          show ?thesis
            unfolding eq transport
            using status dec Some slot by (cases eo) simp_all
        qed
      qed
    qed
    then show ?thesis
      unfolding marshal hr_def using None by simp
  qed
qed

lemma DoRequest_frame:
  assumes "DoRequest c req result w = (r, w')"
  shows "w' = w\<lparr>sent := sent w'\<rparr>"
  using DoRequest_sent [OF assms] by auto

lemma DoRequest_ok:
  assumes run: "DoRequest c req (Some (v, um)) w = ((None, result), w')"
  shows "\<exists>hr resp.
           w' = w\<lparr>sent := sent w @ [hr]\<rparr>
         \<and> httpURL hr = ''https://'' @ Host (Client_config c) @ Path req
         \<and> httpClient_Do w (sent w) hr = Inr resp
         \<and> 200 \<le> StatusCode resp \<and> StatusCode resp < 300
         \<and> result = Some (if StatusCode resp = 204 then v
                           else snd (json_Decode um (ResponseBody resp) v))
         \<and> (StatusCode resp = 204 \<or> fst (json_Decode um (ResponseBody resp) v) = None)"
  using DoRequest_anatomy [of c req "Some (v, um)" w]
proof (elim disjE exE conjE)
  fix e
  assume "DoRequest c req (Some (v, um)) w = ((Some e, map_option fst (Some (v, um))), w)"
  with run show ?thesis by simp
next
  fix hr
  assume url: "httpURL hr = ''https://'' @ Host (Client_config c) @ Path req"
    and eq: "DoRequest c req (Some (v, um)) w =
              ((case httpClient_Do w (sent w) hr of
                  Inl e \<Rightarrow> (Some (Errorf_w ''error making HTTP request'' e),
                            map_option fst (Some (v, um)))
                | Inr resp \<Rightarrow>
                    if StatusCode resp < 200 \<or> StatusCode resp \<ge> 300
                    then (Some (New (''API request failed with status code ''
                            @ Itoa (StatusCode resp) @ '': '' @ ResponseBody resp)),
                          map_option fst (Some (v, um)))
                    else (case Some (v, um) of
                            None \<Rightarrow> (None, None)
                          | Some (v, unmarshal) \<Rightarrow>
                              if StatusCode resp = 204 then (None, Some v)
                              else (map_option (Errorf_w ''error decoding response'')
                                      (fst (json_Decode unmarshal (ResponseBody resp) v)),
                                    Some (snd (json_Decode unmarshal (ResponseBody resp) v))))),
               w\<lparr>sent := sent w @ [hr]\<rparr>)"
  from run eq have w': "w' = w\<lparr>sent := sent w @ [hr]\<rparr>"
    by simp
  show ?thesis
  proof (cases "httpClient_Do w (sent w) hr")
    case (Inl e)
    with run eq show ?thesis by simp
  next
    case (Inr resp)
    with run eq have status: "200 \<le> StatusCode resp" "StatusCode resp < 300"
      by (auto split: if_splits)
    with run eq Inr have
      "result = Some (if StatusCode resp = 204 then v
                      else snd (json_Decode um (ResponseBody resp) v))"
      "StatusCode resp = 204 \<or> fst (json_Decode um (ResponseBody resp) v) = None"
      by (auto split: if_splits)
    with w' url Inr status show ?thesis
      by blast
  qed
qed

lemma DoRequest_log:
  assumes run: "DoRequest c req result w = (r, w')"
  shows "case Body req of
           None \<Rightarrow>
             (case http_NewRequest w (Method req)
                     (''https://'' @ Host (Client_config c) @ Path req) of
                Some e \<Rightarrow> sent w' = sent w
              | None \<Rightarrow>
                  (\<exists>hr. sent w' = sent w @ [hr] \<and> httpMethod hr = Method req
                      \<and> httpURL hr = ''https://'' @ Host (Client_config c) @ Path req
                      \<and> httpBody hr = None))
         | Some body \<Rightarrow>
             (case json_Marshal w body of
                Inl e \<Rightarrow> sent w' = sent w
              | Inr bytes \<Rightarrow>
                  (case http_NewRequest w (Method req)
                          (''https://'' @ Host (Client_config c) @ Path req) of
                     Some e \<Rightarrow> sent w' = sent w
                   | None \<Rightarrow>
                       (\<exists>hr. sent w' = sent w @ [hr] \<and> httpMethod hr = Method req
                           \<and> httpURL hr = ''https://'' @ Host (Client_config c) @ Path req
                           \<and> httpBody hr = Some bytes)))"
proof -
  from run have "w' = snd (DoRequest c req result w)"
    by simp
  then show ?thesis
    unfolding DoRequest_world
    by (simp split: option.splits sum.splits)
qed

lemma balance_forbidden:
  "DoRequest (NewClient production_config) balance_request
       (None :: (unit \<times> unit unmarshal) option) (scripted_world forbidden_reply 3600)
     = ((Some (New ''API request failed with status code 403: Forbidden''), None),
        (scripted_world forbidden_reply 3600)\<lparr>sent := [balance_http_request]\<rparr>)"
  by (simp add: dispatch_defs scenario_defs)

lemma balance_empty_ok:
  "DoRequest (NewClient production_config) balance_request
       (Some (v, unmarshal)) (scripted_world empty_ok_reply 3600)
     = ((Some (Wrapped ''error decoding response: EOF'' (New ''EOF'')), Some v),
        (scripted_world empty_ok_reply 3600)\<lparr>sent := [balance_http_request]\<rparr>)"
  by (simp add: dispatch_defs scenario_defs)

text \<open>
  Claim C8. For every dispatched request (the call handed a request to the transport and
  the transport returned a response): a status outside [200,300) makes \<^verbatim>\<open>DoRequest\<close>
  fail with the error ``API request failed with status code N: body'', N the status in
  decimal and the body verbatim; a status in [200,300) is a success as far as the status
  goes: the call returns no error unless it decodes the body into a slot and the decoding
  fails.
\<close>

theorem C8_DoRequest_status_decides:
  assumes run: "DoRequest c req result w = ((err, out), w')"
      and log: "sent w' = sent w @ [httpReq]"
      and resp: "httpClient_Do w (sent w) httpReq = Inr resp"
  shows "(StatusCode resp < 200 \<or> 300 \<le> StatusCode resp \<longrightarrow>
            err = Some (New (''API request failed with status code ''
                    @ Itoa (StatusCode resp) @ '': '' @ ResponseBody resp)))
       \<and> (200 \<le> StatusCode resp \<and> StatusCode resp < 300 \<longrightarrow>
            err = (case result of
                     None \<Rightarrow> None
                   | Some (v, unmarshal) \<Rightarrow>
                       if StatusCode resp = 204 then None
                       else map_option (Errorf_w ''error decoding response'')
                              (fst (json_Decode unmarshal (ResponseBody resp) v))))"
  using DoRequest_dispatched [OF run log resp] by (auto split: if_splits)

theorem C8_DoRequest_status_decides_witness:
  "fst (fst (DoRequest (NewClient production_config) balance_request
       (None :: (unit \<times> unit unmarshal) option) (scripted_world forbidden_reply 3600)))
     = Some (New ''API request failed with status code 403: Forbidden'')
   \<and> httpClient_Do (scripted_world forbidden_reply 3600) [] balance_http_request
     = Inr \<lparr>StatusCode = 403, ResponseBody = ''Forbidden''\<rparr>"
proof -
  let ?w = "scripted_world forbidden_reply 3600"
  let ?run = "DoRequest (NewClient production_config) balance_request
       (None :: (unit \<times> unit unmarshal) option) ?w"
  have run: "?run = ((fst (fst ?run), None), ?w\<lparr>sent := [balance_http_request]\<rparr>)"
    by (simp add: balance_forbidden)
  have log: "sent (?w\<lparr>sent := [balance_http_request]\<rparr>) = sent ?w @ [balance_http_request]"
    by (simp add: scenario_defs)
  have resp: "httpClient_Do ?w (sent ?w) balance_http_request
      = Inr \<lparr>StatusCode = 403, ResponseBody = ''Forbidden''\<rparr>"
    by (simp add: scenario_defs)
  have "Itoa 403 = ''403''"
    by (simp add: Itoa_def)
  with C8_DoRequest_status_decides [OF run log resp] resp show ?thesis
    by (simp add: scenario_defs)
qed

text \<open>
  Claim C5. The dispatcher is to decode only when a slot is given, the body is not empty
  and the status is not ``no content''. The code tests the slot and the status only (its
  comment reads ``Only try to decode if we have a result pointer and the response isn't
  empty''). For a dispatched request with a slot: on status 204 nothing is decoded, the
  call succeeds and the slot keeps its content; on any other status in [200,300) with an
  empty body the decoder runs and the call fails with ``error decoding response: EOF''.
\<close>

theorem C5_DoRequest_decodes_empty_body:
  assumes run: "DoRequest c req (Some (v, unmarshal)) w = ((err, out), w')"
      and log: "sent w' = sent w @ [httpReq]"
      and resp: "httpClient_Do w (sent w) httpReq = Inr resp"
  shows "(StatusCode resp = 204 \<longrightarrow> err = None \<and> out = Some v)
       \<and> (200 \<le> StatusCode resp \<and> StatusCode resp < 300 \<and> StatusCode resp \<noteq> 204
            \<and> ResponseBody resp = [] \<longrightarrow>
          err = Some (Wrapped ''error decoding response: EOF'' (New ''EOF'')))"
  using DoRequest_dispatched [OF run log resp]
  by (auto simp: json_Decode_def Errorf_w_def io_EOF_def split: if_splits)

theorem C5_DoRequest_decodes_empty_body_witness:
  "fst (DoRequest (NewClient production_config) balance_request
       (Some (''unset'', unmarshal_APIKey (scripted_world empty_ok_reply 3600)))
       (scripted_world empty_ok_reply 3600))
     = (Some (Wrapped ''error decoding response: EOF'' (New ''EOF'')), Some ''unset'')
   \<and> httpClient_Do (scripted_world empty_ok_reply 3600) [] balance_http_request
     = Inr \<lparr>StatusCode = 200, ResponseBody = []\<rparr>"
proof -
  let ?w = "scripted_world empty_ok_reply 3600"
  let ?run = "DoRequest (NewClient production_config) balance_request
       (Some (''unset'', unmarshal_APIKey ?w)) ?w"
  have run: "?run = ((fst (fst ?run), snd (fst ?run)), ?w\<lparr>sent := [balance_http_request]\<rparr>)"
    by (simp add: balance_empty_ok)
  have log: "sent (?w\<lparr>sent := [balance_http_request]\<rparr>) = sent ?w @ [balance_http_request]"
    by (simp add: scenario_defs)
  have resp: "httpClient_Do ?w (sent ?w) balance_http_request
      = Inr \<lparr>StatusCode = 200, ResponseBody = []\<rparr>"
    by (simp add: scenario_defs)
  from C5_DoRequest_decodes_empty_body [OF run log resp] resp show ?thesis
    by (simp add: balance_empty_ok) (simp add: scenario_defs)
qed

subsection \<open>The authenticator\<close>

lemma GetAccessToken_hit:
  assumes "accessToken s \<noteq> []" and "Before (clock w (clock_reads w)) (tokenExpiry s)"
  shows "GetAccessToken s product w
           = ((accessToken s, None), s, w\<lparr>clock_reads := Suc (clock_reads w)\<rparr>)"
  using assms by (simp add: GetAccessToken_def time_Now_def)

lemma GetAccessToken_miss:
  assumes "accessToken s = [] \<or> \<not> Before (clock w (clock_reads w)) (tokenExpiry s)"
  shows "GetAccessToken s product w
           = fetchAccessToken s product
               (if accessToken s \<noteq> [] then w\<lparr>clock_reads := Suc (clock_reads w)\<rparr> else w)"
  using assms by (auto simp add: GetAccessToken_def time_Now_def)

lemma cacheToken_eq:
  "cacheToken s tokenResp w =
     ((AccessToken tokenResp, None),
      s\<lparr>accessToken := AccessToken tokenResp,
        tokenExpiry := clock w (clock_reads w)
                         + sint ((ExpiresIn tokenResp - 60) * 1000000000)\<rparr>,
      w\<lparr>clock_reads := Suc (clock_reads w)\<rparr>)"
  by (simp add: cacheToken_def time_Now_def Add_def Second_def)

text \<open>A call of \<^const>\<open>fetchAccessToken\<close> that returns no error ended in \<^const>\<open>cacheToken\<close>, on
  the token response its exchange left in the slot; one that returns an error leaves the
  service as it was.\<close>

lemma fetchAccessToken_success:
  assumes "fetchAccessToken s product w = ((tok, None), s', w')"
  shows "\<exists>req w0 result w1.
           DoRequest (client s) req
             (Some (\<lparr>AccessToken = [], TokenType = [], ExpiresIn = 0\<rparr>,
                    unmarshal_TokenResponse w0)) w0 = ((None, result), w1)
         \<and> cacheToken s (case result of Some r \<Rightarrow> r
              | None \<Rightarrow> \<lparr>AccessToken = [], TokenType = [], ExpiresIn = 0\<rparr>) w1
             = ((tok, None), s', w')"
  using assms
  unfolding fetchAccessToken_def Let_def
  by (auto split: if_splits prod.splits option.splits sum.splits)

lemma fetchAccessToken_failure:
  assumes "fetchAccessToken s product w = ((tok, Some err), s', w')"
  shows "s' = s \<and> tok = []"
  using assms
  unfolding fetchAccessToken_def Let_def
  by (auto simp: cacheToken_eq split: if_splits prod.splits option.splits sum.splits)

lemma GetAccessToken_success:
  assumes "GetAccessToken s product w = ((tok, None), s', w')"
  shows "accessToken s' = tok"
proof (cases "accessToken s \<noteq> [] \<and> Before (clock w (clock_reads w)) (tokenExpiry s)")
  case True
  then show ?thesis using assms by (auto simp: GetAccessToken_hit)
next
  case False
  then have "accessToken s = [] \<or> \<not> Before (clock w (clock_reads w)) (tokenExpiry s)"
    by blast
  from GetAccessToken_miss [OF this] assms
  obtain w0 where "fetchAccessToken s product w0 = ((tok, None), s', w')" by metis
  from fetchAccessToken_success [OF this] show ?thesis
    by (auto simp: cacheToken_eq)
qed

lemma fetchAccessToken_unknown_product:
  assumes "product \<noteq> ''collection''" and "product \<noteq> ''disbursement''"
      and "Environment (config s) \<noteq> Sandbox
           \<or> (APIUser (config s) \<noteq> [] \<and> APIKey (config s) \<noteq> [])"
  shows "fetchAccessToken s product w
           = (([], Some (New (''unknown product: '' @ product))), s, w)"
  using assms
  unfolding fetchAccessToken_def Let_def
  by auto

text \<open>The duration \<^verbatim>\<open>time.Duration(expires_in - 60) * time.Second\<close> is the exact number of
  nanoseconds as long as it fits a signed 64-bit word.\<close>

lemma sint_duration:
  fixes e :: "64 word"
  assumes lo: "- 9223371976 \<le> sint e" and hi: "sint e \<le> 9223372096"
  shows "sint ((e - 60) * 1000000000) = (sint e - 60) * 1000000000"
proof -
  have "sint (e - 60) = signed_take_bit 63 (sint e - 60)"
    by (simp add: sint_word_ariths)
  also have "\<dots> = sint e - 60"
    using lo hi by (intro signed_take_bit_int_eq_self) simp_all
  finally have diff: "sint (e - 60) = sint e - 60" .
  have second: "sint (1000000000 :: 64 word) = 1000000000"
    by simp
  have "sint ((e - 60) * 1000000000)
          = signed_take_bit (LENGTH(64) - 1) (sint (e - 60) * sint (1000000000 :: 64 word))"
    by (rule sint_word_mult)
  also have "\<dots> = signed_take_bit 63 (sint (e - 60) * 1000000000)"
    by (simp only: second) simp
  also have "\<dots> = signed_take_bit 63 ((sint e - 60) * 1000000000)"
    by (simp only: diff)
  also have "\<dots> = (sint e - 60) * 1000000000"
    using lo hi by (intro signed_take_bit_int_eq_self) simp_all
  finally show ?thesis .
qed

text \<open>The first call of the production scenario: the cache is empty, one token request is
  sent, and its reply is cached with the expiry 3540 seconds after the clock reading.\<close>

lemma production_first_call:
  "GetAccessToken production_auth ''collection'' (scripted_world token_replies 3600)
     = ((''collection-token'', None),
        production_auth\<lparr>accessToken := ''collection-token'', tokenExpiry := 3540000000000\<rparr>,
        (scripted_world token_replies 3600)
          \<lparr>sent := [collection_token_request], clock_reads := 1\<rparr>)"
  by (simp add: auth_defs dispatch_defs scenario_defs)

text \<open>
  Provisioning changes the log and the number of identifiers drawn, and nothing else of the
  world. So a \<^verbatim>\<open>GetAccessToken\<close> that finds no valid token and returns without error has
  sent, as its last request, the token request of the product, received a 2xx response to it
  from the peer, and cached the token response decoded from that response.
\<close>

lemma CreateAPIUser_frame:
  assumes "CreateAPIUser s w = (r, w')"
  shows "w' = w\<lparr>sent := sent w', uuid_draws := uuid_draws w'\<rparr>"
proof (cases "Environment (config s) \<noteq> Sandbox")
  case True
  with assms show ?thesis by (simp add: CreateAPIUser_def)
next
  case False
  obtain res w2 where d: "DoRequest (client s)
      \<lparr>Method = ''POST'', Path = ''/v1_0/apiuser'',
        Body = Some (JObject [(''providerCallbackHost'', JString (CallbackHost (config s)))]),
        Headers = [(''X-Reference-Id'', uuids w (uuid_draws w)),
                   (''Ocp-Apim-Subscription-Key'', SubscriptionKey (config s))],
        QueryParams = []\<rparr>
      (None :: (unit \<times> unit unmarshal) option)
      (w\<lparr>uuid_draws := Suc (uuid_draws w)\<rparr>) = (res, w2)"
    by (meson surj_pair)
  from assms False have "w' = w2"
    unfolding CreateAPIUser_def Let_def uuid_New_def
    by (simp add: d split: prod.splits option.splits)
  from DoRequest_frame [OF d]
  have e: "w2 = w\<lparr>uuid_draws := Suc (uuid_draws w), sent := sent w2\<rparr>" .
  have u: "uuid_draws w2 = Suc (uuid_draws w)"
    by (subst e) simp
  show ?thesis
    unfolding \<open>w' = w2\<close> by (rule trans [OF e]) (simp add: u)
qed


lemma CreateAPIKey_frame:
  assumes "CreateAPIKey s apiUserID w = (r, w')"
  shows "w' = w\<lparr>sent := sent w'\<rparr>"
proof (cases "Environment (config s) \<noteq> Sandbox")
  case True
  with assms show ?thesis by (simp add: CreateAPIKey_def)
next
  case False
  let ?run = "DoRequest (client s)
      \<lparr>Method = ''POST'', Path = ''/v1_0/apiuser/'' @ apiUserID @ ''/apikey'', Body = None,
        Headers = [(''Ocp-Apim-Subscription-Key'', SubscriptionKey (config s))],
        QueryParams = []\<rparr>
      (Some ([], unmarshal_APIKey w)) w"
  from assms False have "w' = snd ?run"
    unfolding CreateAPIKey_def Let_def
    by (auto split: prod.splits option.splits)
  with DoRequest_frame [of "client s" _ _ w "fst ?run" "snd ?run"] show ?thesis
    by simp
qed

lemma DoRequest_oracles:
  assumes "DoRequest c req result w = (r, w')"
  shows "httpClient_Do w' = httpClient_Do w
       \<and> unmarshal_TokenResponse w' = unmarshal_TokenResponse w \<and> clock w' = clock w"
  by (subst DoRequest_frame [OF assms], simp)+

lemma CreateAPIUser_oracles:
  assumes "CreateAPIUser s w = (r, w')"
  shows "httpClient_Do w' = httpClient_Do w
       \<and> unmarshal_TokenResponse w' = unmarshal_TokenResponse w \<and> clock w' = clock w"
  by (subst CreateAPIUser_frame [OF assms], simp)+

lemma CreateAPIKey_oracles:
  assumes "CreateAPIKey s u w = (r, w')"
  shows "httpClient_Do w' = httpClient_Do w
       \<and> unmarshal_TokenResponse w' = unmarshal_TokenResponse w \<and> clock w' = clock w"
  by (subst CreateAPIKey_frame [OF assms], simp)+

lemma fetchAccessToken_exchange:
  assumes "fetchAccessToken s product w = ((tok, None), s', w')"
  shows "\<exists>req w0 result w1.
           httpClient_Do w0 = httpClient_Do w \<and> clock w0 = clock w
         \<and> Method req = ''POST'' \<and> Path req = ''/'' @ product @ ''/token/''
         \<and> DoRequest (client s) req
             (Some (\<lparr>AccessToken = [], TokenType = [], ExpiresIn = 0\<rparr>,
                    unmarshal_TokenResponse w)) w0 = ((None, result), w1)
         \<and> cacheToken s (case result of Some r \<Rightarrow> r
              | None \<Rightarrow> \<lparr>AccessToken = [], TokenType = [], ExpiresIn = 0\<rparr>) w1
             = ((tok, None), s', w')"
proof -
  define prov where "prov =
    (if Environment (config s) = Sandbox \<and> (APIUser (config s) = [] \<or> APIKey (config s) = [])
     then (case CreateAPIUser s w of
             ((_, Some err), w) \<Rightarrow> (Inl err, w)
           | ((apiUser, None), w) \<Rightarrow>
               (case CreateAPIKey s apiUser w of
                  ((_, Some err), w) \<Rightarrow> (Inl err, w)
                | ((apiKey, None), w) \<Rightarrow> (Inr (apiUser, apiKey), w)))
     else (Inr (APIUser (config s), APIKey (config s)), w))"
  obtain pr w0 where p: "prov = (pr, w0)"
    by (cases prov)
  have oracles: "httpClient_Do w0 = httpClient_Do w" "clock w0 = clock w"
    "unmarshal_TokenResponse w0 = unmarshal_TokenResponse w"
    using p unfolding prov_def
    by (auto split: if_splits prod.splits option.splits
        dest!: CreateAPIUser_oracles CreateAPIKey_oracles)
  show ?thesis
  proof (cases pr)
    case (Inl err)
    from assms show ?thesis
      unfolding fetchAccessToken_def Let_def
      unfolding prov_def [symmetric]
      unfolding p Inl
      by simp
  next
    case (Inr cred)
    obtain u k where cred: "cred = (u, k)"
      by (cases cred)
    let ?zero = "\<lparr>AccessToken = [], TokenType = [], ExpiresIn = 0\<rparr>"
    have known: "product = ''collection'' \<or> product = ''disbursement''"
      using assms
      unfolding fetchAccessToken_def Let_def
      unfolding prov_def [symmetric]
      unfolding p Inr cred
      by (auto split: if_splits)
    define req where "req =
      \<lparr>Method = ''POST'', Path = ''/'' @ product @ ''/token/'', Body = None,
       Headers = [(''Authorization'', CreateBasicAuthHeader w0 u k),
                  (''Ocp-Apim-Subscription-Key'',
                     if product = ''collection'' then SubscriptionKey (config s)
                     else DisbursementKey (config s))],
       QueryParams = []\<rparr>"
    let ?run = "DoRequest (client s) req (Some (?zero, unmarshal_TokenResponse w0)) w0"
    have run: "(case ?run of
                  ((Some err, _), w) \<Rightarrow>
                    (([], Some (Errorf_w ''failed to fetch access token'' err)), s, w)
                | ((None, result), w) \<Rightarrow>
                    cacheToken s (case result of Some r \<Rightarrow> r | None \<Rightarrow> ?zero) w)
               = ((tok, None), s', w')"
      using assms known
      unfolding fetchAccessToken_def Let_def
      unfolding prov_def [symmetric]
      unfolding p Inr cred req_def
      by auto
    obtain eo result w1 where d: "?run = ((eo, result), w1)"
      by (metis surj_pair)
    from run have "eo = None"
      and "cacheToken s (case result of Some r \<Rightarrow> r | None \<Rightarrow> ?zero) w1 = ((tok, None), s', w')"
      unfolding d by (cases eo; simp)+
    with d [unfolded oracles(3)] oracles(1,2) show ?thesis
      by (intro exI [of _ req] exI [of _ w0] exI [of _ result] exI [of _ w1])
         (simp add: req_def)
  qed
qed

lemma GetAccessToken_exchange:
  assumes stale: "accessToken s = [] \<or> \<not> Before (clock w (clock_reads w)) (tokenExpiry s)"
      and run: "GetAccessToken s product w = ((tok, None), s', w')"
  shows "\<exists>resp.
           sent w' \<noteq> []
         \<and> httpURL (last (sent w'))
             = ''https://'' @ Host (Client_config (client s)) @ ''/'' @ product @ ''/token/''
         \<and> httpClient_Do w (butlast (sent w')) (last (sent w')) = Inr resp
         \<and> 200 \<le> StatusCode resp \<and> StatusCode resp < 300
         \<and> cacheToken s
              (if StatusCode resp = 204
               then \<lparr>AccessToken = [], TokenType = [], ExpiresIn = 0\<rparr>
               else snd (json_Decode (unmarshal_TokenResponse w) (ResponseBody resp)
                           \<lparr>AccessToken = [], TokenType = [], ExpiresIn = 0\<rparr>))
              (w'\<lparr>clock_reads := clock_reads w' - 1\<rparr>)
             = ((tok, None), s', w')
         \<and> clock w' = clock w"
proof -
  let ?zero = "\<lparr>AccessToken = [], TokenType = [], ExpiresIn = 0\<rparr>"
  let ?wm = "if accessToken s \<noteq> [] then w\<lparr>clock_reads := Suc (clock_reads w)\<rparr> else w"
  have wm: "httpClient_Do ?wm = httpClient_Do w" "clock ?wm = clock w"
    "unmarshal_TokenResponse ?wm = unmarshal_TokenResponse w"
    by simp_all
  from run have "fetchAccessToken s product ?wm = ((tok, None), s', w')"
    by (simp only: GetAccessToken_miss [OF stale])
  from fetchAccessToken_exchange [OF this]
  obtain req w0 result w1 where
    oracles: "httpClient_Do w0 = httpClient_Do w" "clock w0 = clock w"
    and req: "Method req = ''POST''" "Path req = ''/'' @ product @ ''/token/''"
    and dispatch: "DoRequest (client s) req (Some (?zero, unmarshal_TokenResponse w)) w0
                     = ((None, result), w1)"
    and cache: "cacheToken s (case result of Some r \<Rightarrow> r | None \<Rightarrow> ?zero) w1
                  = ((tok, None), s', w')"
    unfolding wm by blast
  from DoRequest_ok [OF dispatch]
  obtain hr resp where
    w1: "w1 = w0\<lparr>sent := sent w0 @ [hr]\<rparr>"
    and url: "httpURL hr = ''https://'' @ Host (Client_config (client s)) @ Path req"
    and transport: "httpClient_Do w0 (sent w0) hr = Inr resp"
    and status: "200 \<le> StatusCode resp" "StatusCode resp < 300"
    and result: "result = Some
      (if StatusCode resp = 204 then ?zero
       else snd (json_Decode (unmarshal_TokenResponse w) (ResponseBody resp) ?zero))"
    by blast
  from cache have w': "w' = w1\<lparr>clock_reads := Suc (clock_reads w1)\<rparr>"
    by (simp add: cacheToken_eq)
  have log: "sent w' = sent w0 @ [hr]"
    by (simp add: w' w1)
  have before: "w'\<lparr>clock_reads := clock_reads w' - 1\<rparr> = w1"
    by (simp add: w')
  have clk: "clock w' = clock w"
    using oracles(2) by (simp add: w' w1)
  from log url req transport oracles status cache result before clk show ?thesis
    by (intro exI [of _ resp]) simp
qed

lemma production_short_call:
  "GetAccessToken production_auth ''collection'' (scripted_world token_replies 30)
     = ((''collection-token'', None),
        production_auth\<lparr>accessToken := ''collection-token'', tokenExpiry := - 30000000000\<rparr>,
        (scripted_world token_replies 30)
          \<lparr>sent := [collection_token_request], clock_reads := 1\<rparr>)"
  by (simp add: auth_defs dispatch_defs scenario_defs)

text \<open>
  Claim C2. In every state of the authenticator with a non-empty cached token and the
  current time strictly before the stored expiry, \<^verbatim>\<open>GetAccessToken\<close> returns exactly the
  cached token, sends no request and leaves the token and the expiry unchanged (the only
  effect is one reading of the clock). In particular, when that state is the one a first
  call left behind, the second call returns the same token as the first.
\<close>

theorem C2_cached_token_returned:
  assumes token: "accessToken s \<noteq> []"
      and fresh: "Before (clock w (clock_reads w)) (tokenExpiry s)"
  shows "GetAccessToken s product w
           = ((accessToken s, None), s, w\<lparr>clock_reads := Suc (clock_reads w)\<rparr>)
       \<and> sent (snd (snd (GetAccessToken s product w))) = sent w
       \<and> (\<forall>s0 product0 w0 tok.
            GetAccessToken s0 product0 w0 = ((tok, None), s, w) \<longrightarrow>
            fst (GetAccessToken s product w) = (tok, None))"
  using GetAccessToken_hit [OF token fresh] GetAccessToken_success
  by auto

theorem C2_cached_token_returned_witness:
  "(let (r1, s1, w1) = GetAccessToken production_auth ''collection''
                         (scripted_world token_replies 3600);
        (r2, s2, w2) = GetAccessToken s1 ''collection'' w1
    in r1 = (''collection-token'', None) \<and> r2 = r1 \<and> s2 = s1 \<and> sent w2 = sent w1
       \<and> accessToken s1 \<noteq> [] \<and> Before (clock w1 (clock_reads w1)) (tokenExpiry s1))"
proof -
  let ?s1 = "production_auth\<lparr>accessToken := ''collection-token'',
                tokenExpiry := 3540000000000\<rparr>"
  let ?w1 = "(scripted_world token_replies 3600)
                \<lparr>sent := [collection_token_request], clock_reads := 1\<rparr>"
  have first: "GetAccessToken production_auth ''collection''
      (scripted_world token_replies 3600) = ((''collection-token'', None), ?s1, ?w1)"
    by (rule production_first_call)
  have time: "clock ?w1 (clock_reads ?w1) = 1000000000"
    by (simp add: scripted_world_def)
  have token: "accessToken ?s1 \<noteq> []"
    by simp
  have fresh: "Before (clock ?w1 (clock_reads ?w1)) (tokenExpiry ?s1)"
    by (simp only: time) (simp add: Before_def)
  from C2_cached_token_returned [OF token fresh, of "''collection''"] first token fresh
  show ?thesis
    by simp
qed

text \<open>
  Claim C1. The authenticator keeps one token field, not keyed by product. As stated,
  the claim has a call for the other product overwrite the cached token on every such
  call. It does not: the cache check does not look at the product, so in the production
  scenario the call for ``disbursement'' that follows a call for ``collection'' sends
  nothing, leaves the cache as it is and returns the token cached for ``collection''
  (asked first, the peer would have issued ``disbursement-token'').
\<close>

theorem C1_counterexample:
  "(let (r1, s1, w1) = GetAccessToken production_auth ''collection''
                         (scripted_world token_replies 3600);
        (r2, s2, w2) = GetAccessToken s1 ''disbursement'' w1
    in r1 = (''collection-token'', None) \<and> r2 = (''collection-token'', None)
       \<and> accessToken s2 = ''collection-token'' \<and> s2 = s1 \<and> sent w2 = sent w1)
   \<and> fst (GetAccessToken production_auth ''disbursement'' (scripted_world token_replies 3600))
       = (''disbursement-token'', None)"
proof -
  have "fst (GetAccessToken production_auth ''disbursement''
               (scripted_world token_replies 3600)) = (''disbursement-token'', None)"
    by (simp add: auth_defs dispatch_defs scenario_defs)
  then show ?thesis
    by (simp add: production_first_call)
       (simp add: GetAccessToken_def time_Now_def Before_def scenario_defs)
qed

text \<open>
  Claim C1, amended. The authenticator keeps one token field, not keyed by product, and
  the cache check ignores the product. After a successful \<^verbatim>\<open>GetAccessToken\<close> for one product
  that returned a non-empty token, that token is the cached one, and a call for any
  product (the other one included), in any later world:
  \<^item> while the time is strictly before the cached expiry, leaves the cached token and the
    expiry unchanged and sends no request;
  \<^item> once the cached token has expired, overwrites the cached token exactly when its own
    exchange succeeds (with the token it returns), and leaves the cache unchanged when
    it fails.
\<close>

theorem C1_shared_cache_overwritten_only_after_expiry:
  assumes first: "GetAccessToken s0 product1 w0 = ((tok, None), s1, w1)"
      and nonempty: "tok \<noteq> []"
  shows "accessToken s1 = tok
       \<and> (Before (clock w (clock_reads w)) (tokenExpiry s1) \<longrightarrow>
            fst (snd (GetAccessToken s1 product2 w)) = s1
            \<and> sent (snd (snd (GetAccessToken s1 product2 w))) = sent w)
       \<and> (\<not> Before (clock w (clock_reads w)) (tokenExpiry s1) \<longrightarrow>
            (\<forall>tok2 s2 w2. GetAccessToken s1 product2 w = ((tok2, None), s2, w2) \<longrightarrow>
               accessToken s2 = tok2
               \<and> (\<exists>tokenResp w'. cacheToken s1 tokenResp w' = ((tok2, None), s2, w2)))
          \<and> (\<forall>tok2 err s2 w2. GetAccessToken s1 product2 w = ((tok2, Some err), s2, w2) \<longrightarrow>
               s2 = s1))"
proof -
  have cached: "accessToken s1 = tok"
    using first by (rule GetAccessToken_success)
  have hit: "fst (snd (GetAccessToken s1 product2 w)) = s1
             \<and> sent (snd (snd (GetAccessToken s1 product2 w))) = sent w"
    if "Before (clock w (clock_reads w)) (tokenExpiry s1)"
    using GetAccessToken_hit [of s1 w product2] that cached nonempty by simp
  have miss: "GetAccessToken s1 product2 w
               = fetchAccessToken s1 product2 (w\<lparr>clock_reads := Suc (clock_reads w)\<rparr>)"
    if "\<not> Before (clock w (clock_reads w)) (tokenExpiry s1)"
    using GetAccessToken_miss [of s1 w product2] that cached nonempty by simp
  have renew: "accessToken s2 = tok2
       \<and> (\<exists>tokenResp w'. cacheToken s1 tokenResp w' = ((tok2, None), s2, w2))"
    if "\<not> Before (clock w (clock_reads w)) (tokenExpiry s1)"
      and "GetAccessToken s1 product2 w = ((tok2, None), s2, w2)" for tok2 s2 w2
    using fetchAccessToken_success [of s1 product2 _ tok2 s2 w2] miss that
      GetAccessToken_success [of s1 product2 w tok2 s2 w2]
    by metis
  have keep: "s2 = s1"
    if "\<not> Before (clock w (clock_reads w)) (tokenExpiry s1)"
      and "GetAccessToken s1 product2 w = ((tok2, Some err), s2, w2)" for tok2 err s2 w2
    using fetchAccessToken_failure [of s1 product2 _ tok2 err s2 w2] miss that
    by metis
  from cached hit renew keep show ?thesis
    by blast
qed

theorem C1_shared_cache_overwritten_only_after_expiry_witness:
  "(let (r1, s1, w1) = GetAccessToken production_auth ''collection''
                         (scripted_world token_replies 3600)
    in r1 = (''collection-token'', None) \<and> accessToken s1 = ''collection-token''
       \<and> Before (clock w1 (clock_reads w1)) (tokenExpiry s1)
       \<and> fst (snd (GetAccessToken s1 ''disbursement'' w1)) = s1
       \<and> sent (snd (snd (GetAccessToken s1 ''disbursement'' w1))) = sent w1)"
proof -
  let ?s1 = "production_auth\<lparr>accessToken := ''collection-token'',
                tokenExpiry := 3540000000000\<rparr>"
  let ?w1 = "(scripted_world token_replies 3600)
                \<lparr>sent := [collection_token_request], clock_reads := 1\<rparr>"
  have first: "GetAccessToken production_auth ''collection''
      (scripted_world token_replies 3600) = ((''collection-token'', None), ?s1, ?w1)"
    by (rule production_first_call)
  have time: "clock ?w1 (clock_reads ?w1) = 1000000000"
    by (simp add: scripted_world_def)
  have nonempty: "''collection-token'' \<noteq> []"
    by simp
  have fresh: "Before (clock ?w1 (clock_reads ?w1)) (tokenExpiry ?s1)"
    by (simp only: time) (simp add: Before_def)
  from C1_shared_cache_overwritten_only_after_expiry
         [OF first nonempty, of ?w1 "''disbursement''"] first fresh
  show ?thesis
    by simp
qed

text \<open>
  Claim C3. As stated, for every configuration and every cache state without a valid
  token, \<^verbatim>\<open>GetAccessToken\<close> with an unknown product fails with the unknown-product error
  and makes no network call. The product is checked after the choice of the API user and
  key: in the sandbox scenario, where neither is set, the call for ``unknown'' first
  sends the two provisioning requests (create user, create key) and only then fails.
\<close>

theorem C3_counterexample:
  "accessToken sandbox_auth = []
   \<and> sent (scripted_world token_replies 3600) = []
   \<and> fst (GetAccessToken sandbox_auth ''unknown'' (scripted_world token_replies 3600))
       = ([], Some (New ''unknown product: unknown''))
   \<and> map httpURL (sent (snd (snd
         (GetAccessToken sandbox_auth ''unknown'' (scripted_world token_replies 3600)))))
       = [''https://sandbox.momodeveloper.mtn.com/v1_0/apiuser'',
          ''https://sandbox.momodeveloper.mtn.com/v1_0/apiuser/6f1c3a52-0000-4000-8000-000000000000/apikey'']"
  by (simp add: auth_defs dispatch_defs scenario_defs)

text \<open>
  Claim C3, amended. For every configuration that needs no sandbox provisioning (the
  environment is not the sandbox, or both the API user and the API key are set) and every
  cache state without a valid cached token, \<^verbatim>\<open>GetAccessToken\<close> with a product other than
  ``collection'' or ``disbursement'' fails with the error ``unknown product: '' followed by
  the product, sends no request and leaves the authenticator unchanged.
\<close>

theorem C3_unknown_product_without_provisioning:
  assumes unknown: "product \<noteq> ''collection''" "product \<noteq> ''disbursement''"
      and stale: "accessToken s = [] \<or> \<not> Before (clock w (clock_reads w)) (tokenExpiry s)"
      and creds: "Environment (config s) \<noteq> Sandbox
                  \<or> (APIUser (config s) \<noteq> [] \<and> APIKey (config s) \<noteq> [])"
  shows "fst (GetAccessToken s product w) = ([], Some (New (''unknown product: '' @ product)))
       \<and> fst (snd (GetAccessToken s product w)) = s
       \<and> sent (snd (snd (GetAccessToken s product w))) = sent w"
  unfolding GetAccessToken_miss [OF stale]
    fetchAccessToken_unknown_product [OF unknown creds]
  by simp

theorem C3_unknown_product_without_provisioning_witness:
  "fst (GetAccessToken production_auth ''unknown'' (scripted_world token_replies 3600))
     = ([], Some (New ''unknown product: unknown''))
   \<and> sent (snd (snd
        (GetAccessToken production_auth ''unknown'' (scripted_world token_replies 3600)))) = []
   \<and> accessToken production_auth = []
   \<and> Environment (config production_auth) \<noteq> Sandbox"
proof -
  have unknown: "''unknown'' \<noteq> ''collection''" "''unknown'' \<noteq> ''disbursement''"
    by simp_all
  have env: "Environment (config production_auth) \<noteq> Sandbox"
    by (simp add: scenario_defs)
  have empty: "accessToken production_auth = []"
    by (simp add: scenario_defs)
  from C3_unknown_product_without_provisioning
         [OF unknown disjI1 [OF empty] disjI1 [OF env], of "scripted_world token_replies 3600"]
       env empty
  show ?thesis
    by (simp add: scripted_world_def)
qed

text \<open>
  Claim C6. As stated, for every \<open>expires_in \<le> 60\<close> the expiry lies in the past and the
  next call re-fetches. The lifetime is a 64-bit \<^verbatim>\<open>int\<close> and the duration
  \<^verbatim>\<open>time.Duration(expires_in - 60) * time.Second\<close> is computed in 64-bit nanoseconds, where
  it wraps: for \<open>expires_in = -9223371977\<close> the product \<open>-9223372037 * 10^9\<close> is below
  \<open>-2^63\<close> and wraps to \<open>9223372036709551616\<close> nanoseconds (about 292 years), so the
  expiry lies in the future and the next call returns the cached token without a request.
\<close>

theorem C6_counterexample:
  "sint (- 9223371977 :: 64 word) \<le> 60
   \<and> (let (r1, s1, w1) = GetAccessToken production_auth ''collection''
                            (scripted_world token_replies (- 9223371977));
           (r2, s2, w2) = GetAccessToken s1 ''collection'' w1
       in r1 = (''collection-token'', None)
          \<and> tokenExpiry s1 = 9223372036709551616
          \<and> clock w1 (clock_reads w1) = 1000000000
          \<and> r2 = (''collection-token'', None) \<and> s2 = s1 \<and> sent w2 = sent w1)"
  by (simp add: auth_defs dispatch_defs scenario_defs)

text \<open>
  Claim C6, amended. A \<^verbatim>\<open>GetAccessToken\<close> that finds no valid token and returns without
  error has sent the token request of the product as its last request and got a 2xx
  response to it; \<open>tokenResp\<close> is the token response decoded from that response (the empty
  one for status 204), \<open>expires_in\<close> its lifetime, and \<open>now\<close> the clock reading taken when
  caching. The call returns and caches the access token of \<open>tokenResp\<close>, with the expiry
  \<open>now + (expires_in - 60)\<close> seconds whenever that duration fits 64-bit nanoseconds
  (\<open>-9223371976 \<le> expires_in \<le> 9223372096\<close>). With \<open>expires_in = 3600\<close> the expiry is
  \<open>now + 3540\<close> seconds. For every \<open>-9223371976 \<le> expires_in \<le> 60\<close> the expiry is not after
  \<open>now\<close>, so a later call (the clock not running backwards) finds no valid token and fetches
  again rather than failing on the cache.
\<close>

theorem C6_expiry_one_minute_early:
  assumes stale: "accessToken s = [] \<or> \<not> Before (clock w (clock_reads w)) (tokenExpiry s)"
      and run: "GetAccessToken s product w = ((tok, None), s', w')"
  shows "\<exists>resp tokenResp now.
           sent w' \<noteq> []
         \<and> httpURL (last (sent w'))
             = ''https://'' @ Host (Client_config (client s)) @ ''/'' @ product @ ''/token/''
         \<and> httpClient_Do w (butlast (sent w')) (last (sent w')) = Inr resp
         \<and> 200 \<le> StatusCode resp \<and> StatusCode resp < 300
         \<and> tokenResp =
               (if StatusCode resp = 204
                then \<lparr>AccessToken = [], TokenType = [], ExpiresIn = 0\<rparr>
                else snd (json_Decode (unmarshal_TokenResponse w) (ResponseBody resp)
                            \<lparr>AccessToken = [], TokenType = [], ExpiresIn = 0\<rparr>))
         \<and> now = clock w (clock_reads w' - 1)
         \<and> tok = AccessToken tokenResp \<and> accessToken s' = AccessToken tokenResp
         \<and> (- 9223371976 \<le> sint (ExpiresIn tokenResp)
              \<and> sint (ExpiresIn tokenResp) \<le> 9223372096 \<longrightarrow>
            tokenExpiry s' = now + (sint (ExpiresIn tokenResp) - 60) * 1000000000)
         \<and> (ExpiresIn tokenResp = 3600 \<longrightarrow> tokenExpiry s' = now + 3540 * 1000000000)
         \<and> (- 9223371976 \<le> sint (ExpiresIn tokenResp) \<and> sint (ExpiresIn tokenResp) \<le> 60 \<longrightarrow>
            tokenExpiry s' \<le> now
            \<and> (\<forall>w2 product2.
                  now \<le> clock w2 (clock_reads w2) \<longrightarrow>
                  GetAccessToken s' product2 w2
                    = fetchAccessToken s' product2
                        (if accessToken s' \<noteq> [] then w2\<lparr>clock_reads := Suc (clock_reads w2)\<rparr>
                         else w2)))"
proof -
  let ?zero = "\<lparr>AccessToken = [], TokenType = [], ExpiresIn = 0\<rparr>"
  from GetAccessToken_exchange [OF stale run]
  obtain resp where
    log: "sent w' \<noteq> []"
    and url: "httpURL (last (sent w'))
                = ''https://'' @ Host (Client_config (client s)) @ ''/'' @ product @ ''/token/''"
    and transport: "httpClient_Do w (butlast (sent w')) (last (sent w')) = Inr resp"
    and status: "200 \<le> StatusCode resp" "StatusCode resp < 300"
    and cache: "cacheToken s
              (if StatusCode resp = 204 then ?zero
               else snd (json_Decode (unmarshal_TokenResponse w) (ResponseBody resp) ?zero))
              (w'\<lparr>clock_reads := clock_reads w' - 1\<rparr>)
             = ((tok, None), s', w')"
    and clk: "clock w' = clock w"
    by blast
  define tokenResp where "tokenResp =
    (if StatusCode resp = 204 then ?zero
     else snd (json_Decode (unmarshal_TokenResponse w) (ResponseBody resp) ?zero))"
  define now where "now = clock w (clock_reads w' - 1)"
  from cache have token: "tok = AccessToken tokenResp" "accessToken s' = AccessToken tokenResp"
    and expiry: "tokenExpiry s' = now + sint ((ExpiresIn tokenResp - 60) * 1000000000)"
    unfolding tokenResp_def [symmetric] now_def
    by (auto simp: cacheToken_eq clk)
  have exact: "tokenExpiry s' = now + (sint (ExpiresIn tokenResp) - 60) * 1000000000"
    if "- 9223371976 \<le> sint (ExpiresIn tokenResp)" "sint (ExpiresIn tokenResp) \<le> 9223372096"
    using expiry sint_duration [OF that] by simp
  have hour: "tokenExpiry s' = now + 3540 * 1000000000"
    if "ExpiresIn tokenResp = 3600"
    using expiry that by simp
  have past: "tokenExpiry s' \<le> now"
    if "- 9223371976 \<le> sint (ExpiresIn tokenResp)" "sint (ExpiresIn tokenResp) \<le> 60"
    using exact [OF that(1)] that(2) by simp
  have again: "GetAccessToken s' product2 w2
                 = fetchAccessToken s' product2
                     (if accessToken s' \<noteq> [] then w2\<lparr>clock_reads := Suc (clock_reads w2)\<rparr>
                      else w2)"
    if "- 9223371976 \<le> sint (ExpiresIn tokenResp)" "sint (ExpiresIn tokenResp) \<le> 60"
      and "now \<le> clock w2 (clock_reads w2)"
    for w2 product2
  proof -
    from past [OF that(1,2)] that(3)
    have "\<not> Before (clock w2 (clock_reads w2)) (tokenExpiry s')"
      by (simp add: Before_def)
    then show ?thesis
      by (intro GetAccessToken_miss) simp
  qed
  from log url transport status tokenResp_def now_def token exact hour past again
  show ?thesis
    by (intro exI [of _ resp] exI [of _ tokenResp] exI [of _ now]) blast
qed


theorem C6_expiry_one_minute_early_witness:
  "(let (r, s', w') = GetAccessToken production_auth ''collection''
                        (scripted_world token_replies 3600)
    in r = (''collection-token'', None) \<and> last (sent w') = collection_token_request
       \<and> tokenExpiry s' = 0 + 3540 * 1000000000)
   \<and> (let (r, s', w') = GetAccessToken production_auth ''collection''
                           (scripted_world token_replies 30)
       in r = (''collection-token'', None) \<and> tokenExpiry s' \<le> 0
          \<and> GetAccessToken s' ''collection'' w'
              = fetchAccessToken s' ''collection'' (w'\<lparr>clock_reads := 2\<rparr>))"
proof -
  let ?zero = "\<lparr>AccessToken = [], TokenType = [], ExpiresIn = 0\<rparr>"
  let ?w = "\<lambda>e. scripted_world token_replies e"
  let ?s = "\<lambda>t. production_auth\<lparr>accessToken := ''collection-token'', tokenExpiry := t\<rparr>"
  let ?w' = "\<lambda>e. (?w e)\<lparr>sent := [collection_token_request], clock_reads := 1\<rparr>"
  have stale: "accessToken production_auth = []
      \<or> \<not> Before (clock (?w e) (clock_reads (?w e))) (tokenExpiry production_auth)" for e
    by (simp add: scenario_defs)
  have reply: "httpClient_Do (?w e) (butlast (sent (?w' e))) (last (sent (?w' e)))
      = Inr \<lparr>StatusCode = 200, ResponseBody = ''collection-token''\<rparr>" for e
    by (simp add: scenario_defs)
  have decoded: "ExpiresIn (snd (json_Decode (unmarshal_TokenResponse (?w e))
      ''collection-token'' ?zero)) = e" for e
    by (simp add: json_Decode_def json_space_def scenario_defs)
  have now: "clock (?w e) (clock_reads (?w' e) - 1) = 0" for e
    by (simp add: scenario_defs)
  have later: "(0::int) \<le> clock (?w' 30) (clock_reads (?w' 30))"
    by (simp add: scenario_defs)
  have next_read: "(?w' 30)\<lparr>clock_reads := Suc (clock_reads (?w' 30))\<rparr>
      = (?w' 30)\<lparr>clock_reads := 2\<rparr>"
    by (simp add: scenario_defs)
  from C6_expiry_one_minute_early [OF stale production_first_call]
  obtain resp tokenResp where
    transport: "httpClient_Do (?w 3600) (butlast (sent (?w' 3600))) (last (sent (?w' 3600)))
                  = Inr resp"
    and decode: "tokenResp = (if StatusCode resp = 204 then ?zero
        else snd (json_Decode (unmarshal_TokenResponse (?w 3600)) (ResponseBody resp) ?zero))"
    and expiry: "ExpiresIn tokenResp = 3600 \<longrightarrow>
       tokenExpiry (?s 3540000000000)
         = clock (?w 3600) (clock_reads (?w' 3600) - 1) + 3540 * 1000000000"
    by blast
  from transport have "resp = \<lparr>StatusCode = 200, ResponseBody = ''collection-token''\<rparr>"
    unfolding reply by simp
  with decode have "ExpiresIn tokenResp = 3600"
    by (simp add: decoded)
  with expiry have hour: "tokenExpiry (?s 3540000000000) = 0 + 3540 * 1000000000"
    unfolding now by simp
  from C6_expiry_one_minute_early [OF stale production_short_call]
  obtain resp tokenResp where
    transport: "httpClient_Do (?w 30) (butlast (sent (?w' 30))) (last (sent (?w' 30)))
                  = Inr resp"
    and decode: "tokenResp = (if StatusCode resp = 204 then ?zero
        else snd (json_Decode (unmarshal_TokenResponse (?w 30)) (ResponseBody resp) ?zero))"
    and expiry: "- 9223371976 \<le> sint (ExpiresIn tokenResp) \<and> sint (ExpiresIn tokenResp) \<le> 60 \<longrightarrow>
       tokenExpiry (?s (- 30000000000)) \<le> clock (?w 30) (clock_reads (?w' 30) - 1)
       \<and> (\<forall>w2 product2.
             clock (?w 30) (clock_reads (?w' 30) - 1) \<le> clock w2 (clock_reads w2) \<longrightarrow>
             GetAccessToken (?s (- 30000000000)) product2 w2
               = fetchAccessToken (?s (- 30000000000)) product2
                   (if accessToken (?s (- 30000000000)) \<noteq> []
                    then w2\<lparr>clock_reads := Suc (clock_reads w2)\<rparr> else w2))"
    by blast
  from transport have "resp = \<lparr>StatusCode = 200, ResponseBody = ''collection-token''\<rparr>"
    unfolding reply by simp
  with decode have "ExpiresIn tokenResp = 30"
    by (simp add: decoded)
  then have "- 9223371976 \<le> sint (ExpiresIn tokenResp) \<and> sint (ExpiresIn tokenResp) \<le> 60"
    by simp
  with expiry have short: "tokenExpiry (?s (- 30000000000)) \<le> 0
      \<and> (\<forall>w2 product2.
             0 \<le> clock w2 (clock_reads w2) \<longrightarrow>
             GetAccessToken (?s (- 30000000000)) product2 w2
               = fetchAccessToken (?s (- 30000000000)) product2
                   (w2\<lparr>clock_reads := Suc (clock_reads w2)\<rparr>))"
    unfolding now by simp
  with later have again: "GetAccessToken (?s (- 30000000000)) ''collection'' (?w' 30)
      = fetchAccessToken (?s (- 30000000000)) ''collection'' ((?w' 30)\<lparr>clock_reads := 2\<rparr>)"
    unfolding next_read [symmetric] by blast
  have last: "last (sent (?w' 3600)) = collection_token_request"
    by simp
  from hour short again last show ?thesis
    by (simp add: production_first_call production_short_call)
qed

subsection \<open>The operations that take a phone number\<close>

text \<open>
  Each of the four operations normalises the phone number first, then obtains a token,
  then dispatches one request. Relative to the log after the token was obtained, the
  operation appends nothing when it got no token, when the payload is not serialised or
  when the request is not constructed, and otherwise exactly one request, which carries the
  normalised number: as the party identifier of the payload for \<^const>\<open>RequestToPay\<close> and
  \<^const>\<open>Transfer\<close>, in the path for the two account-holder queries.
\<close>

lemma RequestToPay_request:
  assumes token: "GetAccessToken auth ''collection'' w = ((tok, None), auth1, w1)"
  shows "\<exists>req w2.
           snd (snd (RequestToPay s phone amount opts auth w))
             = snd (DoRequest (collection_client s) req
                      (None :: (unit \<times> unit unmarshal) option) w2)
         \<and> sent w2 = sent w1 \<and> json_Marshal w2 = json_Marshal w1
         \<and> http_NewRequest w2 = http_NewRequest w1
         \<and> Method req = ''POST''
         \<and> Path req = ''/collection/v1_0/requesttopay''
         \<and> (\<exists>payload. Body req = Some payload
               \<and> party_id ''payer'' payload = Some (JString (formatPhoneNumber phone)))"
proof -
  define given where "given = (case opts of
      None \<Rightarrow> \<lparr>IdempotencyKey = [], ExternalID = [], ReferenceID = [],
                OptCurrency = [], PayerMessage = [], PayeeNote = []\<rparr>
    | Some given \<Rightarrow> given)"
  define rw where "rw = (if ReferenceID given = [] then uuid_New w1
                         else (ReferenceID given, w1))"
  define ew where "ew = (if ExternalID given = [] then uuid_New (snd rw)
                         else (ExternalID given, snd rw))"
  define req where "req =
    \<lparr>Method = ''POST'', Path = ''/collection/v1_0/requesttopay'',
     Body = Some (JObject
       [(''amount'', JString (Sprintf_2f (snd ew) amount)),
        (''currency'', JString (if OptCurrency given = [] then Currency (collection_config s)
                                else OptCurrency given)),
        (''externalId'', JString (fst ew)),
        (''payer'', JObject [(''partyIdType'', JString MSISDN),
                             (''partyId'', JString (formatPhoneNumber phone))]),
        (''payerMessage'', JString (defaultIfEmpty (PayerMessage given) ''Payment request'')),
        (''payeeNote'',
           JString (defaultIfEmpty (PayeeNote given) ''Thank you for your payment''))]),
     Headers =
       [(''Authorization'', ''Bearer '' @ tok),
        (''X-Reference-Id'', fst rw),
        (''X-Target-Environment'', TargetEnvironment (collection_config s)),
        (''Ocp-Apim-Subscription-Key'', SubscriptionKey (collection_config s))]
       @ (if IdempotencyKey given \<noteq> []
          then [(''X-Idempotency-Key'', IdempotencyKey given)] else []),
     QueryParams = []\<rparr>"
  have "RequestToPay s phone amount opts auth w =
          (case DoRequest (collection_client s) req
                  (None :: (unit \<times> unit unmarshal) option) (snd ew) of
             ((Some err, _), w) \<Rightarrow>
               (([], Some (Errorf_w ''error making request-to-pay'' err)), auth1, w)
           | ((None, _), w) \<Rightarrow> ((fst rw, None), auth1, w))"
    unfolding RequestToPay_def Let_def token
    apply (simp only: split_beta fst_conv snd_conv option.case)
    unfolding given_def [symmetric]
    unfolding rw_def [symmetric]
    unfolding ew_def [symmetric]
    unfolding req_def [symmetric]
    apply (rule refl)
    done
  then have out: "snd (snd (RequestToPay s phone amount opts auth w))
      = snd (DoRequest (collection_client s) req
               (None :: (unit \<times> unit unmarshal) option) (snd ew))"
    by (simp split: prod.splits option.splits)
  have world: "sent (snd ew) = sent w1" "json_Marshal (snd ew) = json_Marshal w1"
    "http_NewRequest (snd ew) = http_NewRequest w1"
    by (simp_all add: ew_def rw_def uuid_New_def)
  have verb: "Method req = ''POST''"
    by (simp add: req_def)
  have path: "Path req = ''/collection/v1_0/requesttopay''"
    by (simp add: req_def)
  have body: "\<exists>payload. Body req = Some payload
      \<and> party_id ''payer'' payload = Some (JString (formatPhoneNumber phone))"
    by (simp add: req_def party_id_def)
  from out world verb path body show ?thesis
    by blast
qed

lemma RequestToPay_log:
  assumes token: "GetAccessToken auth ''collection'' w = ((tok, err), auth1, w1)"
      and run: "RequestToPay s phone amount opts auth w = (r, auth', w')"
  shows "case err of
           Some e \<Rightarrow> sent w' = sent w1
         | None \<Rightarrow>
             (\<exists>payload.
                 party_id ''payer'' payload = Some (JString (formatPhoneNumber phone))
               \<and> (case json_Marshal w1 payload of
                     Inl e \<Rightarrow> sent w' = sent w1
                   | Inr bytes \<Rightarrow>
                       (case http_NewRequest w1 ''POST''
                               (''https://'' @ Host (Client_config (collection_client s)) @ ''/collection/v1_0/requesttopay'') of
                          Some e \<Rightarrow> sent w' = sent w1
                        | None \<Rightarrow>
                            (\<exists>hr. sent w' = sent w1 @ [hr] \<and> httpMethod hr = ''POST''
                                \<and> httpURL hr = ''https://'' @ Host (Client_config (collection_client s))
                                                  @ ''/collection/v1_0/requesttopay''
                                \<and> httpBody hr = Some bytes))))"
proof (cases err)
  case (Some e)
  with token run show ?thesis
    by (simp add: RequestToPay_def)
next
  case None
  from RequestToPay_request [OF token [unfolded None], of s phone amount opts] run
  obtain req w2 payload where
    out: "w' = snd (DoRequest (collection_client s) req
                      (None :: (unit \<times> unit unmarshal) option) w2)"
    and world: "sent w2 = sent w1" "json_Marshal w2 = json_Marshal w1"
               "http_NewRequest w2 = http_NewRequest w1"
    and req: "Method req = ''POST''" "Path req = ''/collection/v1_0/requesttopay''"
             "Body req = Some payload"
    and party: "party_id ''payer'' payload = Some (JString (formatPhoneNumber phone))"
    by auto
  have "DoRequest (collection_client s) req (None :: (unit \<times> unit unmarshal) option) w2
          = (fst (DoRequest (collection_client s) req
                    (None :: (unit \<times> unit unmarshal) option) w2), w')"
    by (simp add: out)
  from DoRequest_log [OF this]
  have "case json_Marshal w1 payload of
          Inl e \<Rightarrow> sent w' = sent w1
        | Inr bytes \<Rightarrow>
            (case http_NewRequest w1 ''POST''
                    (''https://'' @ Host (Client_config (collection_client s)) @ ''/collection/v1_0/requesttopay'') of
               Some e \<Rightarrow> sent w' = sent w1
             | None \<Rightarrow>
                 (\<exists>hr. sent w' = sent w1 @ [hr] \<and> httpMethod hr = ''POST''
                     \<and> httpURL hr = ''https://'' @ Host (Client_config (collection_client s))
                                       @ ''/collection/v1_0/requesttopay''
                     \<and> httpBody hr = Some bytes))"
    unfolding req world by simp
  with party None show ?thesis
    by auto
qed

lemma Transfer_request:
  assumes token: "GetAccessToken auth ''disbursement'' w = ((tok, None), auth1, w1)"
  shows "\<exists>req w2.
           snd (snd (Transfer s phone amount opts auth w))
             = snd (DoRequest (disbursement_client s) req
                      (None :: (unit \<times> unit unmarshal) option) w2)
         \<and> sent w2 = sent w1 \<and> json_Marshal w2 = json_Marshal w1
         \<and> http_NewRequest w2 = http_NewRequest w1
         \<and> Method req = ''POST''
         \<and> Path req = ''/disbursement/v1_0/transfer''
         \<and> (\<exists>payload. Body req = Some payload
               \<and> party_id ''payee'' payload = Some (JString (formatPhoneNumber phone)))"
proof -
  define given where "given = (case opts of
      None \<Rightarrow> \<lparr>IdempotencyKey = [], ExternalID = [], ReferenceID = [],
                OptCurrency = [], PayerMessage = [], PayeeNote = []\<rparr>
    | Some given \<Rightarrow> given)"
  define rw where "rw = (if ReferenceID given = [] then uuid_New w1
                         else (ReferenceID given, w1))"
  define ew where "ew = (if ExternalID given = [] then uuid_New (snd rw)
                         else (ExternalID given, snd rw))"
  define req where "req =
    \<lparr>Method = ''POST'', Path = ''/disbursement/v1_0/transfer'',
     Body = Some (JObject
       [(''amount'', JString (Sprintf_2f (snd ew) amount)),
        (''currency'', JString (if OptCurrency given = [] then Currency (disbursement_config s)
                                else OptCurrency given)),
        (''externalId'', JString (fst ew)),
        (''payee'', JObject [(''partyIdType'', JString MSISDN),
                             (''partyId'', JString (formatPhoneNumber phone))]),
        (''payerMessage'',
           JString (defaultIfEmpty (PayerMessage given) ''Disbursement payment'')),
        (''payeeNote'', JString (defaultIfEmpty (PayeeNote given) ''Funds received''))]),
     Headers =
       [(''Authorization'', ''Bearer '' @ tok),
        (''X-Reference-Id'', fst rw),
        (''X-Target-Environment'', TargetEnvironment (disbursement_config s)),
        (''Ocp-Apim-Subscription-Key'', DisbursementKey (disbursement_config s))]
       @ (if IdempotencyKey given \<noteq> []
          then [(''X-Idempotency-Key'', IdempotencyKey given)] else []),
     QueryParams = []\<rparr>"
  have "Transfer s phone amount opts auth w =
          (case DoRequest (disbursement_client s) req
                  (None :: (unit \<times> unit unmarshal) option) (snd ew) of
             ((Some err, _), w) \<Rightarrow>
               (([], Some (Errorf_w ''error making transfer'' err)), auth1, w)
           | ((None, _), w) \<Rightarrow> ((fst rw, None), auth1, w))"
    unfolding Transfer_def Let_def token
    apply (simp only: split_beta fst_conv snd_conv option.case)
    unfolding given_def [symmetric]
    unfolding rw_def [symmetric]
    unfolding ew_def [symmetric]
    unfolding req_def [symmetric]
    apply (rule refl)
    done
  then have out: "snd (snd (Transfer s phone amount opts auth w))
      = snd (DoRequest (disbursement_client s) req
               (None :: (unit \<times> unit unmarshal) option) (snd ew))"
    by (simp split: prod.splits option.splits)
  have world: "sent (snd ew) = sent w1" "json_Marshal (snd ew) = json_Marshal w1"
    "http_NewRequest (snd ew) = http_NewRequest w1"
    by (simp_all add: ew_def rw_def uuid_New_def)
  have verb: "Method req = ''POST''"
    by (simp add: req_def)
  have path: "Path req = ''/disbursement/v1_0/transfer''"
    by (simp add: req_def)
  have body: "\<exists>payload. Body req = Some payload
      \<and> party_id ''payee'' payload = Some (JString (formatPhoneNumber phone))"
    by (simp add: req_def party_id_def)
  from out world verb path body show ?thesis
    by blast
qed

lemma Transfer_log:
  assumes token: "GetAccessToken auth ''disbursement'' w = ((tok, err), auth1, w1)"
      and run: "Transfer s phone amount opts auth w = (r, auth', w')"
  shows "case err of
           Some e \<Rightarrow> sent w' = sent w1
         | None \<Rightarrow>
             (\<exists>payload.
                 party_id ''payee'' payload = Some (JString (formatPhoneNumber phone))
               \<and> (case json_Marshal w1 payload of
                     Inl e \<Rightarrow> sent w' = sent w1
                   | Inr bytes \<Rightarrow>
                       (case http_NewRequest w1 ''POST''
                               (''https://'' @ Host (Client_config (disbursement_client s)) @ ''/disbursement/v1_0/transfer'') of
                          Some e \<Rightarrow> sent w' = sent w1
                        | None \<Rightarrow>
                            (\<exists>hr. sent w' = sent w1 @ [hr] \<and> httpMethod hr = ''POST''
                                \<and> httpURL hr = ''https://'' @ Host (Client_config (disbursement_client s))
                                                  @ ''/disbursement/v1_0/transfer''
                                \<and> httpBody hr = Some bytes))))"
proof (cases err)
  case (Some e)
  with token run show ?thesis
    by (simp add: Transfer_def)
next
  case None
  from Transfer_request [OF token [unfolded None], of s phone amount opts] run
  obtain req w2 payload where
    out: "w' = snd (DoRequest (disbursement_client s) req
                      (None :: (unit \<times> unit unmarshal) option) w2)"
    and world: "sent w2 = sent w1" "json_Marshal w2 = json_Marshal w1"
               "http_NewRequest w2 = http_NewRequest w1"
    and req: "Method req = ''POST''" "Path req = ''/disbursement/v1_0/transfer''"
             "Body req = Some payload"
    and party: "party_id ''payee'' payload = Some (JString (formatPhoneNumber phone))"
    by auto
  have "DoRequest (disbursement_client s) req (None :: (unit \<times> unit unmarshal) option) w2
          = (fst (DoRequest (disbursement_client s) req
                    (None :: (unit \<times> unit unmarshal) option) w2), w')"
    by (simp add: out)
  from DoRequest_log [OF this]
  have "case json_Marshal w1 payload of
          Inl e \<Rightarrow> sent w' = sent w1
        | Inr bytes \<Rightarrow>
            (case http_NewRequest w1 ''POST''
                    (''https://'' @ Host (Client_config (disbursement_client s)) @ ''/disbursement/v1_0/transfer'') of
               Some e \<Rightarrow> sent w' = sent w1
             | None \<Rightarrow>
                 (\<exists>hr. sent w' = sent w1 @ [hr] \<and> httpMethod hr = ''POST''
                     \<and> httpURL hr = ''https://'' @ Host (Client_config (disbursement_client s))
                                       @ ''/disbursement/v1_0/transfer''
                     \<and> httpBody hr = Some bytes))"
    unfolding req world by simp
  with party None show ?thesis
    by auto
qed

lemma Collection_GetAccountHolderInfo_log:
  assumes token: "GetAccessToken auth ''collection'' w = ((tok, err), auth1, w1)"
      and run: "Collection_GetAccountHolderInfo s phone auth w = (r, auth', w')"
  shows "case err of
           Some e \<Rightarrow> sent w' = sent w1
         | None \<Rightarrow>
             (case http_NewRequest w1 ''GET''
                     (''https://'' @ Host (Client_config (collection_client s))
                        @ ''/collection/v1_0/accountholder/MSISDN/'' @ formatPhoneNumber phone
                        @ ''/basicuserinfo'') of
                Some e \<Rightarrow> sent w' = sent w1
              | None \<Rightarrow>
                  (\<exists>hr. sent w' = sent w1 @ [hr] \<and> httpMethod hr = ''GET''
                      \<and> httpURL hr = ''https://'' @ Host (Client_config (collection_client s))
                           @ ''/collection/v1_0/accountholder/MSISDN/'' @ formatPhoneNumber phone
                           @ ''/basicuserinfo''
                      \<and> httpBody hr = None))"
proof (cases err)
  case (Some e)
  with token run show ?thesis
    by (simp add: Collection_GetAccountHolderInfo_def)
next
  case None
  define req where "req =
    \<lparr>Method = ''GET'',
     Path = ''/collection/v1_0/accountholder/MSISDN/'' @ formatPhoneNumber phone
              @ ''/basicuserinfo'',
     Body = None,
     Headers = [(''Authorization'', ''Bearer '' @ tok),
                (''X-Target-Environment'', TargetEnvironment (collection_config s)),
                (''Ocp-Apim-Subscription-Key'', SubscriptionKey (collection_config s))],
     QueryParams = []\<rparr>"
  obtain res w2 where dispatch: "DoRequest (collection_client s) req
      (Some (\<lparr>GivenName = [], FamilyName = [], Birthdate = [], Locale = [],
               Gender = [], Status = []\<rparr>, unmarshal_AccountHolderInfo w1)) w1 = (res, w2)"
    by (meson surj_pair)
  from run have "w' = w2"
    unfolding Collection_GetAccountHolderInfo_def Let_def token None
    apply (simp only: prod.case option.case)
    unfolding req_def [symmetric]
    unfolding dispatch
    apply (simp split: prod.splits option.splits)
    done
  have req: "Method req = ''GET''" "Body req = None"
    "Path req = ''/collection/v1_0/accountholder/MSISDN/'' @ formatPhoneNumber phone
                  @ ''/basicuserinfo''"
    by (simp_all add: req_def)
  from DoRequest_log [OF dispatch]
  have "case http_NewRequest w1 ''GET''
               (''https://'' @ Host (Client_config (collection_client s))
                  @ ''/collection/v1_0/accountholder/MSISDN/'' @ formatPhoneNumber phone
                  @ ''/basicuserinfo'') of
          Some e \<Rightarrow> sent w' = sent w1
        | None \<Rightarrow>
            (\<exists>hr. sent w' = sent w1 @ [hr] \<and> httpMethod hr = ''GET''
                \<and> httpURL hr = ''https://'' @ Host (Client_config (collection_client s))
                     @ ''/collection/v1_0/accountholder/MSISDN/'' @ formatPhoneNumber phone
                     @ ''/basicuserinfo''
                \<and> httpBody hr = None)"
    unfolding req \<open>w' = w2\<close> by simp
  with None show ?thesis
    by simp
qed

lemma Disbursement_GetAccountHolderInfo_log:
  assumes token: "GetAccessToken auth ''disbursement'' w = ((tok, err), auth1, w1)"
      and run: "Disbursement_GetAccountHolderInfo s phone auth w = (r, auth', w')"
  shows "case err of
           Some e \<Rightarrow> sent w' = sent w1
         | None \<Rightarrow>
             (case http_NewRequest w1 ''GET''
                     (''https://'' @ Host (Client_config (disbursement_client s))
                        @ ''/disbursement/v1_0/accountholder/MSISDN/'' @ formatPhoneNumber phone
                        @ ''/basicuserinfo'') of
                Some e \<Rightarrow> sent w' = sent w1
              | None \<Rightarrow>
                  (\<exists>hr. sent w' = sent w1 @ [hr] \<and> httpMethod hr = ''GET''
                      \<and> httpURL hr = ''https://'' @ Host (Client_config (disbursement_client s))
                           @ ''/disbursement/v1_0/accountholder/MSISDN/'' @ formatPhoneNumber phone
                           @ ''/basicuserinfo''
                      \<and> httpBody hr = None))"
proof (cases err)
  case (Some e)
  with token run show ?thesis
    by (simp add: Disbursement_GetAccountHolderInfo_def)
next
  case None
  define req where "req =
    \<lparr>Method = ''GET'',
     Path = ''/disbursement/v1_0/accountholder/MSISDN/'' @ formatPhoneNumber phone
              @ ''/basicuserinfo'',
     Body = None,
     Headers = [(''Authorization'', ''Bearer '' @ tok),
                (''X-Target-Environment'', TargetEnvironment (disbursement_config s)),
                (''Ocp-Apim-Subscription-Key'', DisbursementKey (disbursement_config s))],
     QueryParams = []\<rparr>"
  obtain res w2 where dispatch: "DoRequest (disbursement_client s) req
      (Some (\<lparr>GivenName = [], FamilyName = [], Birthdate = [], Locale = [],
               Gender = [], Status = []\<rparr>, unmarshal_AccountHolderInfo w1)) w1 = (res, w2)"
    by (meson surj_pair)
  from run have "w' = w2"
    unfolding Disbursement_GetAccountHolderInfo_def Let_def token None
    apply (simp only: prod.case option.case)
    unfolding req_def [symmetric]
    unfolding dispatch
    apply (simp split: prod.splits option.splits)
    done
  have req: "Method req = ''GET''" "Body req = None"
    "Path req = ''/disbursement/v1_0/accountholder/MSISDN/'' @ formatPhoneNumber phone
                  @ ''/basicuserinfo''"
    by (simp_all add: req_def)
  from DoRequest_log [OF dispatch]
  have "case http_NewRequest w1 ''GET''
               (''https://'' @ Host (Client_config (disbursement_client s))
                  @ ''/disbursement/v1_0/accountholder/MSISDN/'' @ formatPhoneNumber phone
                  @ ''/basicuserinfo'') of
          Some e \<Rightarrow> sent w' = sent w1
        | None \<Rightarrow>
            (\<exists>hr. sent w' = sent w1 @ [hr] \<and> httpMethod hr = ''GET''
                \<and> httpURL hr = ''https://'' @ Host (Client_config (disbursement_client s))
                     @ ''/disbursement/v1_0/accountholder/MSISDN/'' @ formatPhoneNumber phone
                     @ ''/basicuserinfo''
                \<and> httpBody hr = None)"
    unfolding req \<open>w' = w2\<close> by simp
  with None show ?thesis
    by simp
qed

lemma formatPhoneNumber_idem: "formatPhoneNumber (formatPhoneNumber phone) = formatPhoneNumber phone"
proof -
  let ?p = "formatPhoneNumber phone"
  have digits: "filter is_digit ?p = ?p"
    using formatPhoneNumber_digits [of phone] by (simp add: list_all_iff)
  have country: "prefix ''231'' ?p"
    by (rule formatPhoneNumber_prefix)
  then have "\<not> prefix ''0'' ?p"
    by (auto simp: prefix_def)
  with digits country show ?thesis
    by (simp add: formatPhoneNumber_spec [of ?p] phone_normalization_spec_def)
qed

lemma payment_collection_token:
  "GetAccessToken production_auth ''collection'' (payment_world party)
     = ((''collection-token'', None),
        production_auth\<lparr>accessToken := ''collection-token'', tokenExpiry := 3540000000000\<rparr>,
        (payment_world party)\<lparr>sent := [collection_token_request], clock_reads := 1\<rparr>)"
  by (simp add: payment_world_def auth_defs dispatch_defs scenario_defs)

lemma payment_disbursement_token:
  "GetAccessToken production_auth ''disbursement'' (payment_world party)
     = ((''disbursement-token'', None),
        production_auth\<lparr>accessToken := ''disbursement-token'', tokenExpiry := 3540000000000\<rparr>,
        (payment_world party)\<lparr>sent := [disbursement_token_request], clock_reads := 1\<rparr>)"
  by (simp add: payment_world_def disbursement_token_request_def auth_defs dispatch_defs
      scenario_defs)

text \<open>
  Claim C10. Phone normalisation is idempotent: applied to its own output it returns
  the output unchanged, because the output consists of digits only and starts with
  \<^verbatim>\<open>"231"\<close> (the empty input yields \<^verbatim>\<open>"231"\<close>). The transactions (\<^verbatim>\<open>RequestToPay\<close>,
  \<^verbatim>\<open>Transfer\<close>) and the two account-holder queries send that identifier: once the token is
  obtained, each operation appends exactly one request to the log, provided the payload
  is serialised and the request constructed, and nothing otherwise (nor when no token is
  obtained). The request of a transaction is a \<^verbatim>\<open>POST\<close> whose body is the serialisation of
  a payload with the normalised number as \<^verbatim>\<open>partyId\<close> of the payer or payee; the request
  of a query is a \<^verbatim>\<open>GET\<close> with the normalised number in the path of its URL.
\<close>

theorem C10_formatPhoneNumber_idempotent:
  "formatPhoneNumber (formatPhoneNumber phone) = formatPhoneNumber phone
   \<and> list_all is_digit (formatPhoneNumber phone)
   \<and> prefix ''231'' (formatPhoneNumber phone)
   \<and> formatPhoneNumber [] = ''231''
   \<and> (\<forall>s amount opts auth w tok err auth1 w1 r auth' w'.
         GetAccessToken auth ''collection'' w = ((tok, err), auth1, w1) \<longrightarrow>
         RequestToPay s phone amount opts auth w = (r, auth', w') \<longrightarrow>
         (case err of
            Some e \<Rightarrow> sent w' = sent w1
          | None \<Rightarrow>
              (\<exists>payload.
                  party_id ''payer'' payload = Some (JString (formatPhoneNumber phone))
                \<and> (case json_Marshal w1 payload of
                      Inl e \<Rightarrow> sent w' = sent w1
                    | Inr bytes \<Rightarrow>
                        (case http_NewRequest w1 ''POST''
                                (''https://'' @ Host (Client_config (collection_client s))
                                   @ ''/collection/v1_0/requesttopay'') of
                           Some e \<Rightarrow> sent w' = sent w1
                         | None \<Rightarrow>
                             (\<exists>hr. sent w' = sent w1 @ [hr] \<and> httpMethod hr = ''POST''
                                 \<and> httpURL hr
                                     = ''https://'' @ Host (Client_config (collection_client s))
                                         @ ''/collection/v1_0/requesttopay''
                                 \<and> httpBody hr = Some bytes))))))
   \<and> (\<forall>s amount opts auth w tok err auth1 w1 r auth' w'.
         GetAccessToken auth ''disbursement'' w = ((tok, err), auth1, w1) \<longrightarrow>
         Transfer s phone amount opts auth w = (r, auth', w') \<longrightarrow>
         (case err of
            Some e \<Rightarrow> sent w' = sent w1
          | None \<Rightarrow>
              (\<exists>payload.
                  party_id ''payee'' payload = Some (JString (formatPhoneNumber phone))
                \<and> (case json_Marshal w1 payload of
                      Inl e \<Rightarrow> sent w' = sent w1
                    | Inr bytes \<Rightarrow>
                        (case http_NewRequest w1 ''POST''
                                (''https://'' @ Host (Client_config (disbursement_client s))
                                   @ ''/disbursement/v1_0/transfer'') of
                           Some e \<Rightarrow> sent w' = sent w1
                         | None \<Rightarrow>
                             (\<exists>hr. sent w' = sent w1 @ [hr] \<and> httpMethod hr = ''POST''
                                 \<and> httpURL hr
                                     = ''https://'' @ Host (Client_config (disbursement_client s))
                                         @ ''/disbursement/v1_0/transfer''
                                 \<and> httpBody hr = Some bytes))))))
   \<and> (\<forall>s auth w tok err auth1 w1 r auth' w'.
         GetAccessToken auth ''collection'' w = ((tok, err), auth1, w1) \<longrightarrow>
         Collection_GetAccountHolderInfo s phone auth w = (r, auth', w') \<longrightarrow>
         (case err of
            Some e \<Rightarrow> sent w' = sent w1
          | None \<Rightarrow>
              (case http_NewRequest w1 ''GET''
                      (''https://'' @ Host (Client_config (collection_client s))
                         @ ''/collection/v1_0/accountholder/MSISDN/'' @ formatPhoneNumber phone
                         @ ''/basicuserinfo'') of
                 Some e \<Rightarrow> sent w' = sent w1
               | None \<Rightarrow>
                   (\<exists>hr. sent w' = sent w1 @ [hr] \<and> httpMethod hr = ''GET''
                       \<and> httpURL hr = ''https://'' @ Host (Client_config (collection_client s))
                            @ ''/collection/v1_0/accountholder/MSISDN/''
                            @ formatPhoneNumber phone @ ''/basicuserinfo''
                       \<and> httpBody hr = None))))
   \<and> (\<forall>s auth w tok err auth1 w1 r auth' w'.
         GetAccessToken auth ''disbursement'' w = ((tok, err), auth1, w1) \<longrightarrow>
         Disbursement_GetAccountHolderInfo s phone auth w = (r, auth', w') \<longrightarrow>
         (case err of
            Some e \<Rightarrow> sent w' = sent w1
          | None \<Rightarrow>
              (case http_NewRequest w1 ''GET''
                      (''https://'' @ Host (Client_config (disbursement_client s))
                         @ ''/disbursement/v1_0/accountholder/MSISDN/'' @ formatPhoneNumber phone
                         @ ''/basicuserinfo'') of
                 Some e \<Rightarrow> sent w' = sent w1
               | None \<Rightarrow>
                   (\<exists>hr. sent w' = sent w1 @ [hr] \<and> httpMethod hr = ''GET''
                       \<and> httpURL hr = ''https://'' @ Host (Client_config (disbursement_client s))
                            @ ''/disbursement/v1_0/accountholder/MSISDN/''
                            @ formatPhoneNumber phone @ ''/basicuserinfo''
                       \<and> httpBody hr = None))))"
proof -
  have empty: "formatPhoneNumber [] = ''231''"
    by (simp add: formatPhoneNumber_def strings_HasPrefix_def)
  show ?thesis
    using formatPhoneNumber_idem [of phone] formatPhoneNumber_digits [of phone]
      formatPhoneNumber_prefix [of phone] empty
      RequestToPay_log [where phone = phone] Transfer_log [where phone = phone]
      Collection_GetAccountHolderInfo_log [where phone = phone]
      Disbursement_GetAccountHolderInfo_log [where phone = phone]
    by (intro conjI allI impI) assumption+
qed

theorem C10_formatPhoneNumber_idempotent_witness:
  "formatPhoneNumber ''0733 123-454'' = ''231733123454''
   \<and> formatPhoneNumber ''231733123454'' = ''231733123454''
   \<and> list_all is_digit ''231733123454''
   \<and> (\<exists>hr. sent (snd (snd (RequestToPay collection_service ''0733 123-454'' (Finite 5 0) None
                               production_auth (payment_world ''payer''))))
               = [collection_token_request, hr]
          \<and> httpMethod hr = ''POST''
          \<and> httpURL hr = ''https://momo.example/collection/v1_0/requesttopay''
          \<and> httpBody hr = Some ''231733123454'')
   \<and> (\<exists>hr. sent (snd (snd (Transfer disbursement_service ''0733 123-454'' (Finite 5 0) None
                               production_auth (payment_world ''payee''))))
               = [disbursement_token_request, hr]
          \<and> httpMethod hr = ''POST''
          \<and> httpURL hr = ''https://momo.example/disbursement/v1_0/transfer''
          \<and> httpBody hr = Some ''231733123454'')
   \<and> (\<exists>hr. sent (snd (snd (Collection_GetAccountHolderInfo collection_service ''0733 123-454''
                               production_auth (payment_world ''payer''))))
               = [collection_token_request, hr]
          \<and> httpMethod hr = ''GET''
          \<and> httpURL hr = ''https://momo.example/collection/v1_0/accountholder/MSISDN/231733123454/basicuserinfo''
          \<and> httpBody hr = None)
   \<and> (\<exists>hr. sent (snd (snd (Disbursement_GetAccountHolderInfo disbursement_service
                               ''0733 123-454'' production_auth (payment_world ''payee''))))
               = [disbursement_token_request, hr]
          \<and> httpMethod hr = ''GET''
          \<and> httpURL hr = ''https://momo.example/disbursement/v1_0/accountholder/MSISDN/231733123454/basicuserinfo''
          \<and> httpBody hr = None)"
proof -
  let ?phone = "''0733 123-454''"
  let ?pay = "RequestToPay collection_service ?phone (Finite 5 0) None production_auth
                (payment_world ''payer'')"
  let ?transfer = "Transfer disbursement_service ?phone (Finite 5 0) None production_auth
                     (payment_world ''payee'')"
  let ?payer = "Collection_GetAccountHolderInfo collection_service ?phone production_auth
                  (payment_world ''payer'')"
  let ?payee = "Disbursement_GetAccountHolderInfo disbursement_service ?phone production_auth
                  (payment_world ''payee'')"
  have norm: "formatPhoneNumber ?phone = ''231733123454''"
    by (simp add: formatPhoneNumber_def strings_HasPrefix_def)
  note claim = C10_formatPhoneNumber_idempotent [of ?phone, unfolded norm]
  have idem: "formatPhoneNumber ''231733123454'' = ''231733123454''"
    and digits: "list_all is_digit ''231733123454''"
    using claim by blast+
  have triple: "x = (fst x, fst (snd x), snd (snd x))" for x :: "'a \<times> 'b \<times> 'c"
    by simp
  have host: "Host (Client_config (collection_client collection_service)) = ''momo.example''"
    "Host (Client_config (disbursement_client disbursement_service)) = ''momo.example''"
    by (simp_all add: collection_service_def NewCollectionService_def disbursement_service_def
        NewDisbursementService_def scenario_defs)
  have world: "json_Marshal (payment_world party) = party_marshal party"
    "http_NewRequest (payment_world party) m u = None" for party m u
    by (simp_all add: payment_world_def scenario_defs)
  have marshal: "party_marshal party payload = Inr ''231733123454''"
    if "party_id party payload = Some (JString ''231733123454'')" for party payload
    using that by (simp add: party_marshal_def)
  note operations = claim [THEN conjunct2, THEN conjunct2, THEN conjunct2, THEN conjunct2]
  from operations [THEN conjunct1, rule_format,
      OF payment_collection_token [of "''payer''"] triple [of ?pay]]
  have pay: "\<exists>hr. sent (snd (snd ?pay)) = [collection_token_request, hr]
      \<and> httpMethod hr = ''POST''
      \<and> httpURL hr = ''https://momo.example/collection/v1_0/requesttopay''
      \<and> httpBody hr = Some ''231733123454''"
    by (auto simp: world host marshal)
  from operations [THEN conjunct2, THEN conjunct1, rule_format,
      OF payment_disbursement_token [of "''payee''"] triple [of ?transfer]]
  have transfer: "\<exists>hr. sent (snd (snd ?transfer)) = [disbursement_token_request, hr]
      \<and> httpMethod hr = ''POST''
      \<and> httpURL hr = ''https://momo.example/disbursement/v1_0/transfer''
      \<and> httpBody hr = Some ''231733123454''"
    by (auto simp: world host marshal)
  from operations [THEN conjunct2, THEN conjunct2, THEN conjunct1, rule_format,
      OF payment_collection_token [of "''payer''"] triple [of ?payer]]
  have payer: "\<exists>hr. sent (snd (snd ?payer)) = [collection_token_request, hr]
      \<and> httpMethod hr = ''GET''
      \<and> httpURL hr = ''https://momo.example/collection/v1_0/accountholder/MSISDN/231733123454/basicuserinfo''
      \<and> httpBody hr = None"
    by (auto simp: world host)
  from operations [THEN conjunct2, THEN conjunct2, THEN conjunct2, rule_format,
      OF payment_disbursement_token [of "''payee''"] triple [of ?payee]]
  have payee: "\<exists>hr. sent (snd (snd ?payee)) = [disbursement_token_request, hr]
      \<and> httpMethod hr = ''GET''
      \<and> httpURL hr = ''https://momo.example/disbursement/v1_0/accountholder/MSISDN/231733123454/basicuserinfo''
      \<and> httpBody hr = None"
    by (auto simp: world host)
  from norm idem digits pay transfer payer payee show ?thesis
    by (intro conjI)
qed

end
